theory Spec2Isabelle
  imports Complex_Main "HOL-Library.AList" "HOL-Library.Multiset"
begin

chapter \<open>The model\<close>

section \<open>JavaScript values and containers\<close>

text \<open>
  A JavaScript \<open>Map\<close> keeps its entries in insertion order and holds every key once.
  It is modelled as an association list: \<open>set\<close> on a key that is present replaces the
  value where the entry stands, \<open>set\<close> on a new key appends the entry, \<open>delete\<close>
  drops the entry, \<open>clear\<close> leaves the empty list and \<open>size\<close> is the length.
\<close>

type_synonym ('k, 'v) js_map = "('k \<times> 'v) list"

definition map_get :: "('k, 'v) js_map \<Rightarrow> 'k \<Rightarrow> 'v option" where
  "map_get m k = map_of m k"

definition map_has :: "('k, 'v) js_map \<Rightarrow> 'k \<Rightarrow> bool" where
  "map_has m k = (case map_of m k of None \<Rightarrow> False | Some v \<Rightarrow> True)"

definition map_set :: "('k, 'v) js_map \<Rightarrow> 'k \<Rightarrow> 'v \<Rightarrow> ('k, 'v) js_map" where
  "map_set m k v = AList.update k v m"

definition map_delete :: "('k, 'v) js_map \<Rightarrow> 'k \<Rightarrow> ('k, 'v) js_map" where
  "map_delete m k = AList.delete k m"

definition map_size :: "('k, 'v) js_map \<Rightarrow> nat" where
  "map_size m = length m"

definition map_keys :: "('k, 'v) js_map \<Rightarrow> 'k list" where
  "map_keys m = map fst m"

definition map_values :: "('k, 'v) js_map \<Rightarrow> 'v list" where
  "map_values m = map snd m"

text \<open>
  \<open>xs?.includes(x)\<close> on an optional array: \<open>undefined\<close> (falsy) when the array is
  absent.
\<close>

definition opt_includes :: "'a list option \<Rightarrow> 'a \<Rightarrow> bool" where
  "opt_includes xs x = (case xs of None \<Rightarrow> False | Some ys \<Rightarrow> x \<in> set ys)"

text \<open>
  \<open>s || d\<close> on an optional string: the default is taken when the string is absent or
  empty (both falsy).
\<close>

definition str_or :: "string option \<Rightarrow> string \<Rightarrow> string" where
  "str_or s d = (case s of None \<Rightarrow> d | Some x \<Rightarrow> if x = [] then d else x)"

definition truthy_str :: "string option \<Rightarrow> bool" where
  "truthy_str s = (case s of None \<Rightarrow> False | Some x \<Rightarrow> x \<noteq> [])"

section \<open>ToolPermissionManager\<close>

text \<open>Timestamps are \<open>Date.now()\<close> readings: milliseconds, passed in by the caller.\<close>

record ToolPermission =
  toolName :: string
  allowed :: bool
  reason :: "string option"
  timestamp :: int

record PermissionMode =
  mode_name :: string
  description :: string
  autoApprove :: "string list option"
  autoDeny :: "string list option"

record ToolPermissionManager =
  permissions :: "(string, ToolPermission) js_map"
  currentMode :: string
  modes :: "(string, PermissionMode) js_map"

definition builtin_modes :: "PermissionMode list" where
  "builtin_modes =
    [\<lparr>mode_name = ''default'', description = ''Manual approval for all tools'',
       autoApprove = Some [''read_file'', ''glob'', ''search''],
       autoDeny = Some [''run_command'', ''edit_file'', ''write_file'']\<rparr>,
     \<lparr>mode_name = ''accept_edits'',
       description = ''Auto-approve read operations, prompt for writes'',
       autoApprove = Some [''read_file'', ''glob'', ''search''],
       autoDeny = Some [''run_command'']\<rparr>,
     \<lparr>mode_name = ''bypass_permissions'', description = ''Auto-approve all operations'',
       autoApprove = Some [''*''], autoDeny = None\<rparr>,
     \<lparr>mode_name = ''plan'', description = ''Planning mode - no actual operations'',
       autoApprove = None, autoDeny = Some [''*'']\<rparr>]"

definition initializeModes :: "ToolPermissionManager \<Rightarrow> ToolPermissionManager" where
  "initializeModes pm =
     pm\<lparr>modes := foldl (\<lambda>ms mode. map_set ms (mode_name mode) mode) (modes pm) builtin_modes\<rparr>"

text \<open>The constructor: no decision recorded, mode \<open>default\<close>, the four built-in modes.\<close>

definition new_ToolPermissionManager :: ToolPermissionManager where
  "new_ToolPermissionManager =
     initializeModes \<lparr>permissions = [], currentMode = ''default'', modes = []\<rparr>"

definition setPermission ::
  "ToolPermissionManager \<Rightarrow> string \<Rightarrow> bool \<Rightarrow> string option \<Rightarrow> int \<Rightarrow> ToolPermissionManager"
where
  "setPermission pm t a r now =
     pm\<lparr>permissions := map_set (permissions pm) t
           \<lparr>toolName = t, allowed = a, reason = r, timestamp = now\<rparr>\<rparr>"

definition getPermission :: "ToolPermissionManager \<Rightarrow> string \<Rightarrow> ToolPermission option" where
  "getPermission pm t = map_get (permissions pm) t"

text \<open>
  \<open>requestPermission(toolName, input)\<close> never reads \<open>input\<close>, so the model leaves it
  out. The result is the returned boolean and the manager after the call.
\<close>

definition requestPermission ::
  "ToolPermissionManager \<Rightarrow> string \<Rightarrow> int \<Rightarrow> bool \<times> ToolPermissionManager"
where
  "requestPermission pm t now =
     (case map_get (modes pm) (currentMode pm) of
        None \<Rightarrow> (False, pm)
      | Some mode \<Rightarrow>
          if opt_includes (autoApprove mode) ''*'' \<or> opt_includes (autoApprove mode) t
          then (True, setPermission pm t True (Some ''Auto-approved by mode'') now)
          else if opt_includes (autoDeny mode) ''*'' \<or> opt_includes (autoDeny mode) t
          then (False, setPermission pm t False (Some ''Auto-denied by mode'') now)
          else (False, setPermission pm t False (Some ''Requires explicit approval'') now))"

definition setMode :: "ToolPermissionManager \<Rightarrow> string \<Rightarrow> ToolPermissionManager" where
  "setMode pm modeName =
     (if map_has (modes pm) modeName
      then pm\<lparr>currentMode := modeName, permissions := []\<rparr>
      else pm)"

definition getCurrentMode :: "ToolPermissionManager \<Rightarrow> string" where
  "getCurrentMode pm = currentMode pm"

text \<open>
  A manager in mode \<open>bypass_permissions\<close> that has approved \<open>write_file\<close>: the
  constructor, \<open>setMode('bypass_permissions')\<close>, \<open>requestPermission('write_file')\<close>
  at time 1000.
\<close>

definition example_bypass_manager :: ToolPermissionManager where
  "example_bypass_manager =
     snd (requestPermission (setMode new_ToolPermissionManager ''bypass_permissions'')
            ''write_file'' 1000)"

section \<open>Plain values and objects\<close>

text \<open>Values of type \<open>any\<close>: tool inputs, tool results, session metadata values.\<close>

datatype json =
    JUndefined
  | JNull
  | JBool bool
  | JNum int
  | JStr string
  | JArr "json list"
  | JObj "(string \<times> json) list"

text \<open>
  A plain object is the list of its own properties in creation order. Enumeration
  (\<open>Object.entries\<close>) does not follow creation order alone: the keys that are array
  indices (canonical decimal numerals below \<open>2^32 - 1 = 4294967295\<close>) come first, in
  ascending numeric order, and the other keys follow in creation order.
\<close>

type_synonym js_object = "(string \<times> json) list"

definition is_digit :: "char \<Rightarrow> bool" where
  "is_digit c = (48 \<le> (of_char c :: nat) \<and> (of_char c :: nat) \<le> 57)"

definition digits_value :: "string \<Rightarrow> nat" where
  "digits_value s = foldl (\<lambda>n c. 10 * n + ((of_char c :: nat) - 48)) 0 s"

definition is_array_index :: "string \<Rightarrow> bool" where
  "is_array_index k =
     (case k of
        [] \<Rightarrow> False
      | c # cs \<Rightarrow> list_all is_digit k \<and> (cs = [] \<or> c \<noteq> CHR ''0'') \<and>
          digits_value k < 4294967295)"

definition object_fromEntries :: "(string \<times> json) list \<Rightarrow> js_object" where
  "object_fromEntries es = foldl (\<lambda>obj e. AList.update (fst e) (snd e) obj) [] es"

definition object_entries :: "js_object \<Rightarrow> (string \<times> json) list" where
  "object_entries obj =
     sort_key (\<lambda>e. digits_value (fst e)) (filter (\<lambda>e. is_array_index (fst e)) obj) @
     filter (\<lambda>e. \<not> is_array_index (fst e)) obj"

text \<open>\<open>new Map(entries)\<close>: the entries are set one after the other.\<close>

definition new_Map :: "('k \<times> 'v) list \<Rightarrow> ('k, 'v) js_map" where
  "new_Map es = foldl (\<lambda>m e. map_set m (fst e) (snd e)) [] es"

text \<open>\<open>n || d\<close> on an optional number: absent and \<open>0\<close> are falsy.\<close>

definition num_or :: "int option \<Rightarrow> int \<Rightarrow> int" where
  "num_or n d = (case n of None \<Rightarrow> d | Some x \<Rightarrow> if x = 0 then d else x)"

section \<open>SessionManager\<close>

record SessionConfig =
  cfg_id :: "string option"
  cfg_mode :: "string option"
  cfg_workingDirectory :: "string option"
  cfg_permissionMode :: "string option"
  cfg_timeout :: "int option"
  cfg_maxToolCalls :: "int option"

text \<open>
  The \<open>metadata\<close> field of a session holds a reference to a \<open>Map\<close> object, not the
  entries: the spread copy \<open>{ ...session }\<close> copies the reference. The \<open>Map\<close> objects
  live in a heap indexed by reference.
\<close>

type_synonym ref = nat

record SessionState =
  session_id :: string
  mode :: string
  workingDirectory :: string
  permissionMode :: string
  createdAt :: int
  lastActivity :: int
  toolCallCount :: int
  isActive :: bool
  metadata :: ref

datatype event_type = Created | Updated | Destroyed | Timeout | ModeChanged

text \<open>
  The \<open>data\<close> of an event: \<open>{ session }\<close>, \<open>{ session, imported: true }\<close>,
  \<open>{ changes }\<close>, \<open>{ oldMode, newMode }\<close> or \<open>{ expiredSessions }\<close>. The session of an
  event is recorded as it is when the event is emitted.
\<close>

datatype event_data =
    DataSession SessionState
  | DataImported SessionState
  | DataChanges "string list"
  | DataModeChange string string
  | DataExpired "string list"

record SessionEvent =
  ev_type :: event_type
  ev_sessionId :: string
  ev_timestamp :: int
  ev_data :: event_data

text \<open>
  The state of a \<open>SessionManager\<close>: its fields, the \<open>session_event\<close>s emitted so far in
  emission order, and the heap of metadata \<open>Map\<close> objects with the next free reference.
\<close>

record SessionManager =
  sessions :: "(string, SessionState) js_map"
  permissionManager :: ToolPermissionManager
  defaultSessionTimeout :: int
  maxSessions :: nat
  emitted :: "SessionEvent list"
  heap :: "ref \<Rightarrow> (string, json) js_map"
  next_ref :: ref

definition new_SessionManager :: SessionManager where
  "new_SessionManager =
     \<lparr>sessions = [], permissionManager = new_ToolPermissionManager,
      defaultSessionTimeout = 1800000, maxSessions = 100, emitted = [],
      heap = (\<lambda>r. []), next_ref = 0\<rparr>"

definition emit :: "SessionManager \<Rightarrow> SessionEvent \<Rightarrow> SessionManager" where
  "emit st e = st\<lparr>emitted := emitted st @ [e]\<rparr>"

text \<open>The only error \<open>createSession\<close> throws: \<open>Maximum session limit (n) reached\<close>.\<close>

datatype session_error = MaxSessionLimitReached nat

text \<open>
  Every operation takes the reading of \<open>Date.now()\<close> as \<open>now\<close> (one reading for the
  whole call), \<open>createSession\<close> and \<open>importSession\<close> also what \<open>generateSessionId()\<close>
  returns when it is called and the process's working directory.
\<close>

definition destroySession :: "SessionManager \<Rightarrow> string \<Rightarrow> int \<Rightarrow> bool \<times> SessionManager" where
  "destroySession st sessionId now =
     (case map_get (sessions st) sessionId of
        None \<Rightarrow> (False, st)
      | Some session \<Rightarrow>
          (True,
           emit (st\<lparr>sessions := map_delete (sessions st) sessionId\<rparr>)
             \<lparr>ev_type = Destroyed, ev_sessionId = sessionId, ev_timestamp = now,
              ev_data = DataSession (session\<lparr>isActive := False\<rparr>)\<rparr>))"

definition is_expired :: "SessionManager \<Rightarrow> int \<Rightarrow> SessionState \<Rightarrow> bool" where
  "is_expired st now session =
     (\<not> isActive session \<or> now - lastActivity session \<ge> defaultSessionTimeout st)"

definition cleanupExpiredSessions :: "SessionManager \<Rightarrow> int \<Rightarrow> nat \<times> SessionManager" where
  "cleanupExpiredSessions st now =
     (let expired = map fst (filter (\<lambda>e. is_expired st now (snd e)) (sessions st));
          st1 = foldl (\<lambda>s sessionId. snd (destroySession s sessionId now)) st expired;
          st2 = (if expired \<noteq> []
                 then emit st1 \<lparr>ev_type = Timeout, ev_sessionId = [], ev_timestamp = now,
                                 ev_data = DataExpired expired\<rparr>
                 else st1)
      in (length expired, st2))"

text \<open>Lines 144 to 169 of \<open>createSession\<close>: the part after the capacity check.\<close>

definition allocateSession ::
  "SessionManager \<Rightarrow> SessionConfig \<Rightarrow> string \<Rightarrow> string \<Rightarrow> int \<Rightarrow> string \<times> SessionManager"
where
  "allocateSession st config sessionId cwd now =
     (let session =
            \<lparr>session_id = sessionId,
             mode = str_or (cfg_mode config) ''default'',
             workingDirectory = str_or (cfg_workingDirectory config) cwd,
             permissionMode = str_or (cfg_permissionMode config) ''yolo'',
             createdAt = now, lastActivity = now, toolCallCount = 0, isActive = True,
             metadata = next_ref st\<rparr>;
          st1 = st\<lparr>heap := (heap st)(next_ref st := []), next_ref := Suc (next_ref st)\<rparr>;
          st2 = st1\<lparr>sessions := map_set (sessions st1) sessionId session\<rparr>;
          st3 = st2\<lparr>permissionManager := setMode (permissionManager st2) (mode session)\<rparr>
      in (sessionId,
          emit st3 \<lparr>ev_type = Created, ev_sessionId = sessionId, ev_timestamp = now,
                    ev_data = DataSession session\<rparr>))"

definition createSession ::
  "SessionManager \<Rightarrow> SessionConfig \<Rightarrow> string \<Rightarrow> string \<Rightarrow> int \<Rightarrow>
   (session_error + string) \<times> SessionManager"
where
  "createSession st config generated cwd now =
     (let sessionId = str_or (cfg_id config) generated
      in if map_size (sessions st) \<ge> maxSessions st
         then
           (let st1 = snd (cleanupExpiredSessions st now)
            in if map_size (sessions st1) \<ge> maxSessions st1
               then (Inl (MaxSessionLimitReached (maxSessions st1)), st1)
               else (case allocateSession st1 config sessionId cwd now of
                       (r, st2) \<Rightarrow> (Inr r, st2)))
         else (case allocateSession st config sessionId cwd now of
                 (r, st2) \<Rightarrow> (Inr r, st2)))"

definition getSession ::
  "SessionManager \<Rightarrow> string \<Rightarrow> int \<Rightarrow> SessionState option \<times> SessionManager"
where
  "getSession st sessionId now =
     (case map_get (sessions st) sessionId of
        None \<Rightarrow> (None, st)
      | Some session \<Rightarrow>
          (let session1 = session\<lparr>lastActivity := now\<rparr>
           in (Some session1, st\<lparr>sessions := map_set (sessions st) sessionId session1\<rparr>)))"

text \<open>\<open>updates.f && updates.f !== session.f\<close>\<close>

definition changed :: "string option \<Rightarrow> string \<Rightarrow> bool" where
  "changed u cur = (truthy_str u \<and> u \<noteq> Some cur)"

definition updateSession ::
  "SessionManager \<Rightarrow> string \<Rightarrow> SessionConfig \<Rightarrow> int \<Rightarrow> bool \<times> SessionManager"
where
  "updateSession st sessionId updates now =
     (case map_get (sessions st) sessionId of
        None \<Rightarrow> (False, st)
      | Some session \<Rightarrow>
          (let oldMode = mode session;
               m = changed (cfg_mode updates) (mode session);
               w = changed (cfg_workingDirectory updates) (workingDirectory session);
               p = changed (cfg_permissionMode updates) (permissionMode session);
               session1 = (if m then session\<lparr>mode := str_or (cfg_mode updates) []\<rparr>
                           else session);
               pm1 = (if m then setMode (permissionManager st) (str_or (cfg_mode updates) [])
                      else permissionManager st);
               session2 = (if w then session1\<lparr>workingDirectory :=
                                          str_or (cfg_workingDirectory updates) []\<rparr>
                           else session1);
               session3 = (if p then session2\<lparr>permissionMode :=
                                          str_or (cfg_permissionMode updates) []\<rparr>
                           else session2);
               changes =
                 (if m then [''mode: '' @ str_or (cfg_mode updates) []] else []) @
                 (if w then [''workingDirectory: '' @ str_or (cfg_workingDirectory updates) []]
                  else []) @
                 (if p then [''permissionMode: '' @ str_or (cfg_permissionMode updates) []]
                  else []);
               session4 = session3\<lparr>lastActivity := now\<rparr>;
               st1 = st\<lparr>sessions := map_set (sessions st) sessionId session4,
                        permissionManager := pm1\<rparr>;
               st2 = (if changes \<noteq> []
                      then emit st1 \<lparr>ev_type = Updated, ev_sessionId = sessionId,
                                      ev_timestamp = now, ev_data = DataChanges changes\<rparr>
                      else st1);
               st3 = (if changes \<noteq> [] \<and> oldMode \<noteq> mode session4
                      then emit st2 \<lparr>ev_type = ModeChanged, ev_sessionId = sessionId,
                                      ev_timestamp = now,
                                      ev_data = DataModeChange oldMode (mode session4)\<rparr>
                      else st2)
           in (True, st3)))"

definition incrementToolCall :: "SessionManager \<Rightarrow> string \<Rightarrow> int \<Rightarrow> int \<times> SessionManager" where
  "incrementToolCall st sessionId now =
     (case map_get (sessions st) sessionId of
        None \<Rightarrow> (0, st)
      | Some session \<Rightarrow>
          (let session1 = session\<lparr>toolCallCount := toolCallCount session + 1,
                                  lastActivity := now\<rparr>
           in (toolCallCount session1,
               st\<lparr>sessions := map_set (sessions st) sessionId session1\<rparr>)))"

definition checkToolPermission ::
  "SessionManager \<Rightarrow> string \<Rightarrow> string \<Rightarrow> int \<Rightarrow> bool \<times> SessionManager"
where
  "checkToolPermission st sessionId tool now =
     (case getSession st sessionId now of
        (None, st1) \<Rightarrow> (False, st1)
      | (Some session, st1) \<Rightarrow>
          (case requestPermission (permissionManager st1) tool now of
             (ok, pm) \<Rightarrow> (ok, st1\<lparr>permissionManager := pm\<rparr>)))"

definition setSessionMetadata ::
  "SessionManager \<Rightarrow> string \<Rightarrow> string \<Rightarrow> json \<Rightarrow> int \<Rightarrow> bool \<times> SessionManager"
where
  "setSessionMetadata st sessionId key v now =
     (case map_get (sessions st) sessionId of
        None \<Rightarrow> (False, st)
      | Some session \<Rightarrow>
          (let st1 = st\<lparr>heap := (heap st)
                        (metadata session := map_set (heap st (metadata session)) key v)\<rparr>
           in (True,
               st1\<lparr>sessions := map_set (sessions st1) sessionId
                                   (session\<lparr>lastActivity := now\<rparr>)\<rparr>)))"

definition getSessionMetadata ::
  "SessionManager \<Rightarrow> string \<Rightarrow> string \<Rightarrow> int \<Rightarrow> json option \<times> SessionManager"
where
  "getSessionMetadata st sessionId key now =
     (case getSession st sessionId now of
        (None, st1) \<Rightarrow> (None, st1)
      | (Some session, st1) \<Rightarrow> (map_get (heap st1 (metadata session)) key, st1))"

text \<open>
  The snapshot \<open>exportSession\<close> returns, which is also what \<open>importSession\<close> reads: an
  object of type \<open>any\<close>, so every field may be absent.
\<close>

record SessionData =
  d_id :: "string option"
  d_mode :: "string option"
  d_workingDirectory :: "string option"
  d_permissionMode :: "string option"
  d_createdAt :: "int option"
  d_lastActivity :: "int option"
  d_toolCallCount :: "int option"
  d_metadata :: "js_object option"

definition exportSession ::
  "SessionManager \<Rightarrow> string \<Rightarrow> int \<Rightarrow> SessionData option \<times> SessionManager"
where
  "exportSession st sessionId now =
     (case getSession st sessionId now of
        (None, st1) \<Rightarrow> (None, st1)
      | (Some session, st1) \<Rightarrow>
          (Some \<lparr>d_id = Some (session_id session),
                 d_mode = Some (mode session),
                 d_workingDirectory = Some (workingDirectory session),
                 d_permissionMode = Some (permissionMode session),
                 d_createdAt = Some (createdAt session),
                 d_lastActivity = Some (lastActivity session),
                 d_toolCallCount = Some (toolCallCount session),
                 d_metadata = Some (object_fromEntries (heap st1 (metadata session)))\<rparr>,
           st1))"

definition importSession ::
  "SessionManager \<Rightarrow> SessionData \<Rightarrow> string \<Rightarrow> string \<Rightarrow> int \<Rightarrow> string \<times> SessionManager"
where
  "importSession st sessionData generated cwd now =
     (let sessionId = str_or (d_id sessionData) generated;
          session =
            \<lparr>session_id = sessionId,
             mode = str_or (d_mode sessionData) ''default'',
             workingDirectory = str_or (d_workingDirectory sessionData) cwd,
             permissionMode = str_or (d_permissionMode sessionData) ''yolo'',
             createdAt = num_or (d_createdAt sessionData) now,
             lastActivity = num_or (d_lastActivity sessionData) now,
             toolCallCount = num_or (d_toolCallCount sessionData) 0,
             isActive = True,
             metadata = next_ref st\<rparr>;
          entries = object_entries (case d_metadata sessionData of None \<Rightarrow> [] | Some obj \<Rightarrow> obj);
          st1 = st\<lparr>heap := (heap st)(next_ref st := new_Map entries),
                   next_ref := Suc (next_ref st)\<rparr>;
          st2 = st1\<lparr>sessions := map_set (sessions st1) sessionId session\<rparr>;
          st3 = st2\<lparr>permissionManager := setMode (permissionManager st2) (mode session)\<rparr>
      in (sessionId,
          emit st3 \<lparr>ev_type = Created, ev_sessionId = sessionId, ev_timestamp = now,
                    ev_data = DataImported session\<rparr>))"

definition destroyAllSessions :: "SessionManager \<Rightarrow> int \<Rightarrow> nat \<times> SessionManager" where
  "destroyAllSessions st now =
     foldl (\<lambda>acc sessionId.
              case destroySession (snd acc) sessionId now of
                (ok, st1) \<Rightarrow> (if ok then Suc (fst acc) else fst acc, st1))
       (0, st) (map_keys (sessions st))"

section \<open>Notions used in the statements\<close>

text \<open>The event \<open>destroySession\<close> emits for a store entry (key and session).\<close>

definition destroyed_event :: "int \<Rightarrow> string \<times> SessionState \<Rightarrow> SessionEvent" where
  "destroyed_event now e =
     \<lparr>ev_type = Destroyed, ev_sessionId = fst e, ev_timestamp = now,
      ev_data = DataSession ((snd e)\<lparr>isActive := False\<rparr>)\<rparr>"

text \<open>
  A store holding one session: the constructor, then
  \<open>createSession({ id: 's1' })\<close> at time 1000 in the directory \<open>/home/u\<close>.
\<close>

definition example_config :: SessionConfig where
  "example_config = \<lparr>cfg_id = Some ''s1'', cfg_mode = None, cfg_workingDirectory = None,
     cfg_permissionMode = None, cfg_timeout = None, cfg_maxToolCalls = None\<rparr>"

definition example_store :: SessionManager where
  "example_store = snd (createSession new_SessionManager example_config ''gen-1'' ''/home/u'' 1000)"

text \<open>A snapshot to import, with the id of the session of \<open>example_store\<close>.\<close>

definition example_data :: SessionData where
  "example_data =
     \<lparr>d_id = Some ''s1'', d_mode = Some ''plan'', d_workingDirectory = Some ''/srv'',
      d_permissionMode = Some ''conservative'', d_createdAt = Some 10, d_lastActivity = Some 20,
      d_toolCallCount = Some 7, d_metadata = Some [(''owner'', JStr ''ann'')]\<rparr>"

text \<open>
  The session \<open>importSession\<close> builds from a snapshot (every field taken from the
  snapshot, with the defaults of the source where a field is absent or falsy, and
  \<open>isActive\<close> true), and the \<open>created\<close> event carrying \<open>imported\<close> it emits for it.
\<close>

definition imported_session ::
  "SessionManager \<Rightarrow> SessionData \<Rightarrow> string \<Rightarrow> string \<Rightarrow> int \<Rightarrow> SessionState"
where
  "imported_session st d generated cwd now =
     \<lparr>session_id = str_or (d_id d) generated,
      mode = str_or (d_mode d) ''default'',
      workingDirectory = str_or (d_workingDirectory d) cwd,
      permissionMode = str_or (d_permissionMode d) ''yolo'',
      createdAt = num_or (d_createdAt d) now,
      lastActivity = num_or (d_lastActivity d) now,
      toolCallCount = num_or (d_toolCallCount d) 0,
      isActive = True,
      metadata = next_ref st\<rparr>"

definition imported_event :: "int \<Rightarrow> SessionState \<Rightarrow> SessionEvent" where
  "imported_event now session =
     \<lparr>ev_type = Created, ev_sessionId = session_id session, ev_timestamp = now,
      ev_data = DataImported session\<rparr>"

text \<open>The \<open>timeout\<close> event of a sweep that removed the entries \<open>gone\<close> (none if there are none).\<close>

definition timeout_event :: "int \<Rightarrow> (string \<times> SessionState) list \<Rightarrow> SessionEvent list" where
  "timeout_event now gone =
     (if gone \<noteq> []
      then [\<lparr>ev_type = Timeout, ev_sessionId = [], ev_timestamp = now,
             ev_data = DataExpired (map fst gone)\<rparr>]
      else [])"

text \<open>
  The session \<open>createSession\<close> builds from a configuration, and the \<open>created\<close> event
  it emits for it.
\<close>

definition created_session :: "SessionManager \<Rightarrow> SessionConfig \<Rightarrow> string \<Rightarrow> string \<Rightarrow> int \<Rightarrow> SessionState" where
  "created_session st config generated cwd now =
     \<lparr>session_id = str_or (cfg_id config) generated,
      mode = str_or (cfg_mode config) ''default'',
      workingDirectory = str_or (cfg_workingDirectory config) cwd,
      permissionMode = str_or (cfg_permissionMode config) ''yolo'',
      createdAt = now, lastActivity = now, toolCallCount = 0, isActive = True,
      metadata = next_ref st\<rparr>"

definition created_event :: "int \<Rightarrow> SessionState \<Rightarrow> SessionEvent" where
  "created_event now session =
     \<lparr>ev_type = Created, ev_sessionId = session_id session, ev_timestamp = now,
      ev_data = DataSession session\<rparr>"

text \<open>
  A store filled by \<open>n\<close> calls \<open>createSession()\<close> on a new manager, all at time 1000,
  where \<open>generateSessionId()\<close> returns \<open>example_key i\<close> in call \<open>i\<close>; and the session
  call \<open>i\<close> creates.
\<close>

definition empty_config :: SessionConfig where
  "empty_config = \<lparr>cfg_id = None, cfg_mode = None, cfg_workingDirectory = None,
     cfg_permissionMode = None, cfg_timeout = None, cfg_maxToolCalls = None\<rparr>"

definition example_key :: "nat \<Rightarrow> string" where
  "example_key n = CHR ''s'' # replicate n CHR ''x''"

definition example_filled_store :: "nat \<Rightarrow> SessionManager" where
  "example_filled_store n =
     foldl (\<lambda>st i. snd (createSession st empty_config (example_key i) ''/home/u'' 1000))
       new_SessionManager [0..<n]"

definition example_session :: "nat \<Rightarrow> SessionState" where
  "example_session i =
     \<lparr>session_id = example_key i, mode = ''default'', workingDirectory = ''/home/u'',
      permissionMode = ''yolo'', createdAt = 1000, lastActivity = 1000, toolCallCount = 0,
      isActive = True, metadata = i\<rparr>"

text \<open>
  The full store after one more session came in by \<open>importSession\<close> (which checks no
  cap): a snapshot with id \<open>old\<close> whose last activity was at time 5.
\<close>

definition example_old_data :: SessionData where
  "example_old_data =
     \<lparr>d_id = Some ''old'', d_mode = None, d_workingDirectory = None,
      d_permissionMode = None, d_createdAt = Some 5, d_lastActivity = Some 5,
      d_toolCallCount = None, d_metadata = None\<rparr>"

definition example_overfull_store :: SessionManager where
  "example_overfull_store =
     snd (importSession (example_filled_store 100) example_old_data ''gen'' ''/home/u'' 1000)"

text \<open>\<open>example_store\<close> after \<open>incrementToolCall('s1')\<close> at time 2000.\<close>

definition example_used_store :: SessionManager where
  "example_used_store = snd (incrementToolCall example_store ''s1'' 2000)"

section \<open>Clients and reachable states\<close>

text \<open>
  A client that holds a session object handed out by the manager (the copy returned by
  \<open>getSession\<close>) holds the reference to its metadata \<open>Map\<close> and can call \<open>set\<close>,
  \<open>delete\<close> and \<open>clear\<close> on it.
\<close>

definition client_metadata_set :: "SessionManager \<Rightarrow> ref \<Rightarrow> string \<Rightarrow> json \<Rightarrow> SessionManager" where
  "client_metadata_set st r key v = st\<lparr>heap := (heap st)(r := map_set (heap st r) key v)\<rparr>"

definition client_metadata_delete :: "SessionManager \<Rightarrow> ref \<Rightarrow> string \<Rightarrow> SessionManager" where
  "client_metadata_delete st r key = st\<lparr>heap := (heap st)(r := map_delete (heap st r) key)\<rparr>"

definition client_metadata_clear :: "SessionManager \<Rightarrow> ref \<Rightarrow> SessionManager" where
  "client_metadata_clear st r = st\<lparr>heap := (heap st)(r := [])\<rparr>"

text \<open>
  The states a manager reaches from its constructor by its operations and by what clients
  do to the metadata maps they hold. The process's working directory is never the empty
  string.
\<close>

inductive reachable :: "SessionManager \<Rightarrow> bool" where
  reach_new: "reachable new_SessionManager"
| reach_create:
    "reachable st \<Longrightarrow> cwd \<noteq> [] \<Longrightarrow> reachable (snd (createSession st config generated cwd now))"
| reach_get: "reachable st \<Longrightarrow> reachable (snd (getSession st sessionId now))"
| reach_update: "reachable st \<Longrightarrow> reachable (snd (updateSession st sessionId updates now))"
| reach_destroy: "reachable st \<Longrightarrow> reachable (snd (destroySession st sessionId now))"
| reach_increment: "reachable st \<Longrightarrow> reachable (snd (incrementToolCall st sessionId now))"
| reach_check: "reachable st \<Longrightarrow> reachable (snd (checkToolPermission st sessionId tool now))"
| reach_cleanup: "reachable st \<Longrightarrow> reachable (snd (cleanupExpiredSessions st now))"
| reach_set_metadata:
    "reachable st \<Longrightarrow> reachable (snd (setSessionMetadata st sessionId key v now))"
| reach_get_metadata:
    "reachable st \<Longrightarrow> reachable (snd (getSessionMetadata st sessionId key now))"
| reach_export: "reachable st \<Longrightarrow> reachable (snd (exportSession st sessionId now))"
| reach_import:
    "reachable st \<Longrightarrow> cwd \<noteq> [] \<Longrightarrow>
     reachable (snd (importSession st sessionData generated cwd now))"
| reach_destroy_all: "reachable st \<Longrightarrow> reachable (snd (destroyAllSessions st now))"
| reach_client_set: "reachable st \<Longrightarrow> reachable (client_metadata_set st r key v)"
| reach_client_delete: "reachable st \<Longrightarrow> reachable (client_metadata_delete st r key)"
| reach_client_clear: "reachable st \<Longrightarrow> reachable (client_metadata_clear st r)"

text \<open>
  What holds of every reachable store: no stored session has an empty working directory
  or permission mode, and the keys of the store and of every metadata map are distinct.
\<close>

definition store_ok :: "SessionManager \<Rightarrow> bool" where
  "store_ok st =
     ((\<forall>e\<in>set (sessions st). workingDirectory (snd e) \<noteq> [] \<and> permissionMode (snd e) \<noteq> []) \<and>
      distinct (map fst (sessions st)) \<and>
      (\<forall>r. distinct (map fst (heap st r))))"

text \<open>
  \<open>example_used_store\<close> after \<open>setSessionMetadata('s1', 'owner', 'ann')\<close> and
  \<open>setSessionMetadata('s1', '7', 1)\<close>.
\<close>

definition example_meta_store :: SessionManager where
  "example_meta_store =
     snd (setSessionMetadata
            (snd (setSessionMetadata example_used_store ''s1'' ''owner'' (JStr ''ann'') 2500))
            ''s1'' ''7'' (JNum 1) 2600)"

section \<open>ACPToolConverter\<close>

text \<open>
  Reading a property of a value: the property of an object, \<open>undefined\<close> when the object
  has none of that name or the value is a primitive. The transforms below read properties
  of \<open>toolCall.input || {}\<close> only, which is never \<open>null\<close> or \<open>undefined\<close>.
\<close>

definition get_prop :: "json \<Rightarrow> string \<Rightarrow> json" where
  "get_prop v key =
     (case v of
        JObj ps \<Rightarrow> (case map_of ps key of None \<Rightarrow> JUndefined | Some x \<Rightarrow> x)
      | _ \<Rightarrow> JUndefined)"

text \<open>A \<open>KodeToolResult\<close>; its \<open>type\<close> is always \<open>tool_result\<close>.\<close>

record KodeToolResult =
  content :: json
  tool_use_id :: string
  is_error :: bool

record ToolMapping =
  fromACP :: string
  toKode :: string
  transform :: "(json \<Rightarrow> json) option"
  reverseTransform :: "(KodeToolResult \<Rightarrow> json) option"

definition DEFAULT_TOOL_MAPPINGS :: "ToolMapping list" where
  "DEFAULT_TOOL_MAPPINGS =
     [\<lparr>fromACP = ''read_file'', toKode = ''FileRead'',
       transform = Some (\<lambda>input. JObj [(''abs_path'', get_prop input ''path''),
                                        (''file_path'', get_prop input ''path'')]),
       reverseTransform = None\<rparr>,
      \<lparr>fromACP = ''write_file'', toKode = ''FileWrite'',
       transform = Some (\<lambda>input. JObj [(''abs_path'', get_prop input ''path''),
                                        (''file_path'', get_prop input ''path''),
                                        (''content'', get_prop input ''content'')]),
       reverseTransform = None\<rparr>,
      \<lparr>fromACP = ''edit_file'', toKode = ''FileEdit'',
       transform = Some (\<lambda>input. JObj [(''abs_path'', get_prop input ''path''),
                                        (''file_path'', get_prop input ''path''),
                                        (''old_string'', get_prop input ''old_string''),
                                        (''new_string'', get_prop input ''new_string'')]),
       reverseTransform = None\<rparr>,
      \<lparr>fromACP = ''run_command'', toKode = ''Bash'',
       transform = Some (\<lambda>input. JObj [(''command'', get_prop input ''command'')]),
       reverseTransform = None\<rparr>,
      \<lparr>fromACP = ''glob'', toKode = ''Glob'',
       transform = Some (\<lambda>input. JObj [(''pattern'', get_prop input ''pattern''),
                                        (''path'', get_prop input ''path'')]),
       reverseTransform = None\<rparr>,
      \<lparr>fromACP = ''search'', toKode = ''Grep'',
       transform = Some (\<lambda>input. JObj [(''pattern'', get_prop input ''pattern''),
                                        (''path'', get_prop input ''path'')]),
       reverseTransform = None\<rparr>,
      \<lparr>fromACP = ''create_task'', toKode = ''Task'',
       transform = Some (\<lambda>input. JObj [(''description'', get_prop input ''description'')]),
       reverseTransform = None\<rparr>,
      \<lparr>fromACP = ''web_search'', toKode = ''WebSearch'',
       transform = Some (\<lambda>input. JObj [(''query'', get_prop input ''query'')]),
       reverseTransform = None\<rparr>,
      \<lparr>fromACP = ''web_fetch'', toKode = ''WebFetch'',
       transform = Some (\<lambda>input. JObj [(''url'', get_prop input ''url'')]),
       reverseTransform = None\<rparr>]"

record ACPToolConverter =
  mappings :: "(string, ToolMapping) js_map"
  reverseMappings :: "(string, ToolMapping) js_map"

definition addMapping :: "ACPToolConverter \<Rightarrow> ToolMapping \<Rightarrow> ACPToolConverter" where
  "addMapping c mapping =
     c\<lparr>mappings := map_set (mappings c) (fromACP mapping) mapping,
       reverseMappings := map_set (reverseMappings c) (toKode mapping) mapping\<rparr>"

definition initializeMappings :: "ACPToolConverter \<Rightarrow> ToolMapping list \<Rightarrow> ACPToolConverter" where
  "initializeMappings c ms =
     foldl (\<lambda>c1 mapping.
              c1\<lparr>mappings := map_set (mappings c1) (fromACP mapping) mapping,
                 reverseMappings := map_set (reverseMappings c1) (toKode mapping) mapping\<rparr>)
       c ms"

text \<open>The constructor; its argument defaults to \<open>DEFAULT_TOOL_MAPPINGS\<close>.\<close>

definition new_ACPToolConverter :: "ToolMapping list \<Rightarrow> ACPToolConverter" where
  "new_ACPToolConverter ms = initializeMappings \<lparr>mappings = [], reverseMappings = []\<rparr> ms"

definition removeMapping :: "ACPToolConverter \<Rightarrow> string \<Rightarrow> ACPToolConverter" where
  "removeMapping c acpToolName =
     (case map_get (mappings c) acpToolName of
        None \<Rightarrow> c
      | Some mapping \<Rightarrow>
          c\<lparr>mappings := map_delete (mappings c) acpToolName,
            reverseMappings := map_delete (reverseMappings c) (toKode mapping)\<rparr>)"

definition getSupportedTools :: "ACPToolConverter \<Rightarrow> string list" where
  "getSupportedTools c = map_keys (mappings c)"

text \<open>\<open>s.includes(p)\<close> on strings: \<open>p\<close> occurs in \<open>s\<close> as a contiguous part.\<close>

fun starts_with :: "string \<Rightarrow> string \<Rightarrow> bool" where
  "starts_with s [] = True"
| "starts_with [] (p # ps) = False"
| "starts_with (c # cs) (p # ps) = (c = p \<and> starts_with cs ps)"

fun str_includes :: "string \<Rightarrow> string \<Rightarrow> bool" where
  "str_includes [] p = (p = [])"
| "str_includes (c # cs) p = (starts_with (c # cs) p \<or> str_includes cs p)"

text \<open>
  \<open>convertFromKode\<close>: a result without a \<open>tool_use_id\<close> is returned as it is; otherwise
  the first inverse entry whose internal name occurs in the \<open>tool_use_id\<close> is looked for,
  its \<open>reverseTransform\<close> is applied when it has one, and the result is put in the
  canonical envelope when not.
\<close>

definition result_json :: "KodeToolResult \<Rightarrow> json" where
  "result_json r =
     JObj [(''type'', JStr ''tool_result''), (''content'', content r),
           (''tool_use_id'', JStr (tool_use_id r)), (''is_error'', JBool (is_error r))]"

definition convertFromKode :: "ACPToolConverter \<Rightarrow> KodeToolResult \<Rightarrow> json" where
  "convertFromKode c r =
     (if tool_use_id r = [] then result_json r
      else
        (case List.find (\<lambda>m. str_includes (tool_use_id r) (toKode m))
                (map_values (reverseMappings c)) of
           None \<Rightarrow>
             JObj [(''type'', JStr ''tool_result''), (''tool_use_id'', JStr (tool_use_id r)),
                   (''content'', content r), (''is_error'', JBool (is_error r))]
         | Some mapping \<Rightarrow>
             (case reverseTransform mapping of
                Some f \<Rightarrow> f r
              | None \<Rightarrow>
                  JObj [(''type'', JStr ''tool_result''), (''tool_use_id'', JStr (tool_use_id r)),
                        (''content'', content r), (''is_error'', JBool (is_error r))])))"

text \<open>
  The two indices agree: every forward entry stands under its mapping's external name and
  the inverse index holds, under that mapping's internal name, a mapping with the same
  external name; and the same with the roles exchanged.
\<close>

definition indices_consistent :: "ACPToolConverter \<Rightarrow> bool" where
  "indices_consistent c =
     (list_all (\<lambda>e. map_option fromACP (map_get (reverseMappings c) (toKode (snd e))) =
                    Some (fst e) \<and> fromACP (snd e) = fst e) (mappings c) \<and>
      list_all (\<lambda>e. map_option toKode (map_get (mappings c) (fromACP (snd e))) =
                    Some (fst e) \<and> toKode (snd e) = fst e) (reverseMappings c))"

text \<open>
  The external name \<open>fetch\<close> registered for the internal name \<open>Fetch\<close> with a
  \<open>reverseTransform\<close>, then registered again for the internal name \<open>Download\<close>.
\<close>

definition example_fetch_old :: ToolMapping where
  "example_fetch_old =
     \<lparr>fromACP = ''fetch'', toKode = ''Fetch'', transform = None,
      reverseTransform = Some (\<lambda>r. JStr ''old rule'')\<rparr>"

definition example_fetch_new :: ToolMapping where
  "example_fetch_new =
     \<lparr>fromACP = ''fetch'', toKode = ''Download'', transform = None, reverseTransform = None\<rparr>"

definition example_converter :: ACPToolConverter where
  "example_converter =
     addMapping (addMapping (new_ACPToolConverter DEFAULT_TOOL_MAPPINGS) example_fetch_old)
       example_fetch_new"

section \<open>MultiModelManager\<close>

record ModelCost =
  cost_input :: real
  cost_output :: real
  currency :: string

record ModelProfile =
  profile_name :: string
  provider :: string
  model :: string
  apiKey :: "string option"
  baseUrl :: "string option"
  maxTokens :: "nat option"
  temperature :: "real option"
  contextWindow :: "nat option"
  cost :: "ModelCost option"

record ModelPointers =
  main :: string
  task :: string
  reasoning :: string
  quick :: string

text \<open>\<open>keyof ModelPointers\<close>, and \<open>modelPointers[purpose]\<close>.\<close>

datatype purpose = Main | Task | Reasoning | Quick

fun pointer :: "ModelPointers \<Rightarrow> purpose \<Rightarrow> string" where
  "pointer p Main = main p"
| "pointer p Task = task p"
| "pointer p Reasoning = reasoning p"
| "pointer p Quick = quick p"

record KodeACPConfig =
  config_workingDirectory :: "string option"
  config_permissionMode :: "string option"
  defaultModel :: "string option"
  logLevel :: "string option"

record MultiModelManager =
  mm_config :: KodeACPConfig
  modelProfiles :: "(string, ModelProfile) js_map"
  modelPointers :: ModelPointers
  currentModel :: string

text \<open>The default profiles all have temperature 0.3 and equal token and context limits.\<close>

definition default_profile :: "string \<Rightarrow> string \<Rightarrow> string \<Rightarrow> nat \<Rightarrow> ModelProfile" where
  "default_profile n p m tokens =
     \<lparr>profile_name = n, provider = p, model = m, apiKey = None, baseUrl = None,
      maxTokens = Some tokens, temperature = Some (3 / 10), contextWindow = Some tokens,
      cost = None\<rparr>"

definition defaultModels :: "ModelProfile list" where
  "defaultModels =
     [default_profile ''claude-sonnet'' ''anthropic'' ''claude-3-sonnet-20240229'' 200000,
      default_profile ''claude-haiku'' ''anthropic'' ''claude-3-haiku-20240307'' 200000,
      default_profile ''gpt-4'' ''openai'' ''gpt-4'' 128000,
      default_profile ''gpt-4o'' ''openai'' ''gpt-4o'' 128000,
      default_profile ''qwen-coder'' ''alibaba'' ''qwen-coder-plus'' 32000,
      default_profile ''gemini-pro'' ''google'' ''gemini-1.5-pro'' 2097152]"

definition initializeDefaultModels :: "MultiModelManager \<Rightarrow> MultiModelManager" where
  "initializeDefaultModels mm =
     mm\<lparr>modelProfiles :=
          foldl (\<lambda>ps m. map_set ps (profile_name m) m) (modelProfiles mm) defaultModels\<rparr>"

definition new_MultiModelManager :: "KodeACPConfig \<Rightarrow> MultiModelManager" where
  "new_MultiModelManager cfg =
     initializeDefaultModels
       \<lparr>mm_config = cfg, modelProfiles = [],
        modelPointers = \<lparr>main = ''claude-sonnet'', task = ''qwen-coder'',
                          reasoning = ''gpt-4'', quick = ''claude-haiku''\<rparr>,
        currentModel = ''claude-sonnet''\<rparr>"

definition removeModelProfile :: "MultiModelManager \<Rightarrow> string \<Rightarrow> bool \<times> MultiModelManager" where
  "removeModelProfile mm n =
     (map_has (modelProfiles mm) n, mm\<lparr>modelProfiles := map_delete (modelProfiles mm) n\<rparr>)"

record ModelOptions =
  opt_temperature :: "real option"
  opt_maxTokens :: "nat option"
  systemPrompt :: "string option"

text \<open>
  The call to the model backend (\<open>simulateModelCall\<close> stands in for it in the source):
  it returns the response text, or fails with a message.
\<close>

type_synonym model_call = "ModelProfile \<Rightarrow> string \<Rightarrow> ModelOptions option \<Rightarrow> string + string"

text \<open>\<open>executeWithModel\<close> returns the response, or throws: \<open>Inl\<close> holds the error's message.\<close>

definition executeWithModel ::
  "MultiModelManager \<Rightarrow> model_call \<Rightarrow> string \<Rightarrow> string option \<Rightarrow> ModelOptions option \<Rightarrow>
   string + string"
where
  "executeWithModel mm call prompt modelName options =
     (let targetModel = str_or modelName (currentModel mm)
      in case map_get (modelProfiles mm) targetModel of
           None \<Rightarrow> Inl (''Model profile not found: '' @ targetModel)
         | Some profile \<Rightarrow> call profile prompt options)"

record ModelRequest =
  req_prompt :: string
  req_modelName :: "string option"
  req_purpose :: "purpose option"
  req_options :: "ModelOptions option"

record ModelResult =
  res_model :: string
  res_response :: string
  res_error :: "string option"

text \<open>
  The function \<open>executeInParallel\<close> maps over the requests. Each call reads the manager
  and changes nothing, and \<open>Promise.all\<close> returns the results in the order of the
  requests, so the batch is the list of the single results.
\<close>

definition executeRequest :: "MultiModelManager \<Rightarrow> model_call \<Rightarrow> ModelRequest \<Rightarrow> ModelResult" where
  "executeRequest mm call request =
     (let modelName =
            str_or (req_modelName request)
              (case req_purpose request of
                 Some p \<Rightarrow> pointer (modelPointers mm) p
               | None \<Rightarrow> currentModel mm)
      in case executeWithModel mm call (req_prompt request) (Some modelName)
                (req_options request) of
           Inr response \<Rightarrow>
             \<lparr>res_model = modelName, res_response = response, res_error = None\<rparr>
         | Inl message \<Rightarrow>
             \<lparr>res_model = str_or (req_modelName request) (currentModel mm),
              res_response = [], res_error = Some message\<rparr>)"

definition executeInParallel ::
  "MultiModelManager \<Rightarrow> model_call \<Rightarrow> ModelRequest list \<Rightarrow> ModelResult list"
where
  "executeInParallel mm call requests = map (executeRequest mm call) requests"

text \<open>
  A manager whose \<open>task\<close> pointer dangles (the constructor, then
  \<open>removeModelProfile('qwen-coder')\<close>), and a batch of one request by name and one by
  purpose.
\<close>

definition example_config_acp :: KodeACPConfig where
  "example_config_acp =
     \<lparr>config_workingDirectory = None, config_permissionMode = None, defaultModel = None,
      logLevel = None\<rparr>"

definition example_models :: MultiModelManager where
  "example_models = snd (removeModelProfile (new_MultiModelManager example_config_acp) ''qwen-coder'')"

definition example_requests :: "ModelRequest list" where
  "example_requests =
     [\<lparr>req_prompt = ''a'', req_modelName = Some ''claude-sonnet'', req_purpose = None,
       req_options = None\<rparr>,
      \<lparr>req_prompt = ''b'', req_modelName = None, req_purpose = Some Task,
       req_options = None\<rparr>]"

section \<open>KodeAcpAgentSimple\<close>

record KodeSession =
  ks_id :: string
  ks_workingDirectory :: string
  cancelled :: bool
  ks_permissionMode :: string

record KodeToolCall =
  call_name :: string
  call_input :: json
  call_id :: "string option"

text \<open>A message: its \<open>type\<close> and the fields \<open>handleToolCall\<close> reads.\<close>

record SimpleACPMessage =
  msg_type :: string
  msg_sessionId :: "string option"
  msg_toolCall :: "KodeToolCall option"

datatype acp_response =
    ErrorResponse string
  | NewSessionResponse string
  | ToolCallResponse string string KodeToolResult

text \<open>
  The calls the router makes to its collaborators, in the order it makes them. The
  execution collaborator \<open>kodeIntegration.executeTool\<close> returns a result or rejects with
  a message.
\<close>

datatype collaborator_call = PermissionRequested string | ToolExecuted KodeToolCall

type_synonym tool_executor = "KodeToolCall \<Rightarrow> string + KodeToolResult"

text \<open>
  The agent's state: its configuration and its sessions. It holds no permission manager
  and no tool converter.
\<close>

record KodeAcpAgentSimple =
  agent_config :: KodeACPConfig
  agent_sessions :: "(string, KodeSession) js_map"

definition new_KodeAcpAgentSimple :: "KodeACPConfig \<Rightarrow> string \<Rightarrow> KodeAcpAgentSimple" where
  "new_KodeAcpAgentSimple cfg cwd =
     \<lparr>agent_config =
        \<lparr>config_workingDirectory =
           (case config_workingDirectory cfg of None \<Rightarrow> Some cwd | Some w \<Rightarrow> Some w),
         config_permissionMode =
           (case config_permissionMode cfg of None \<Rightarrow> Some ''yolo'' | Some p \<Rightarrow> Some p),
         defaultModel = defaultModel cfg,
         logLevel = (case logLevel cfg of None \<Rightarrow> Some ''info'' | Some l \<Rightarrow> Some l)\<rparr>,
      agent_sessions = []\<rparr>"

definition handleNewSession ::
  "KodeAcpAgentSimple \<Rightarrow> string \<Rightarrow> string \<Rightarrow> acp_response \<times> KodeAcpAgentSimple"
where
  "handleNewSession ag generated cwd =
     (let session = \<lparr>ks_id = generated,
                     ks_workingDirectory = str_or (config_workingDirectory (agent_config ag)) cwd,
                     cancelled = False,
                     ks_permissionMode = str_or (config_permissionMode (agent_config ag)) ''yolo''\<rparr>
      in (NewSessionResponse generated,
          ag\<lparr>agent_sessions := map_set (agent_sessions ag) generated session\<rparr>))"

definition handleToolCall ::
  "KodeAcpAgentSimple \<Rightarrow> tool_executor \<Rightarrow> string \<Rightarrow> SimpleACPMessage \<Rightarrow>
   acp_response \<times> collaborator_call list"
where
  "handleToolCall ag executeTool generated message =
     (case (msg_sessionId message, msg_toolCall message) of
        (Some sessionId, Some toolCall) \<Rightarrow>
          if sessionId = [] then (ErrorResponse ''Missing sessionId or toolCall'', [])
          else
            (case map_get (agent_sessions ag) sessionId of
               None \<Rightarrow> (ErrorResponse (''Session not found: '' @ sessionId), [])
             | Some session \<Rightarrow>
                 (let kodeToolCall =
                        \<lparr>call_name = call_name toolCall, call_input = call_input toolCall,
                         call_id = Some (str_or (call_id toolCall) generated)\<rparr>
                  in case executeTool kodeToolCall of
                       Inr result \<Rightarrow>
                         (ToolCallResponse sessionId (str_or (call_id toolCall) generated) result,
                          [ToolExecuted kodeToolCall])
                     | Inl msg \<Rightarrow>
                         (ErrorResponse (''Tool call failed: '' @ msg),
                          [ToolExecuted kodeToolCall])))
      | _ \<Rightarrow> (ErrorResponse ''Missing sessionId or toolCall'', []))"

text \<open>
  A sequence of collaborator calls is permission-gated when every execution of a tool
  comes after a permission request for that tool's name.
\<close>

fun gated_after :: "string list \<Rightarrow> collaborator_call list \<Rightarrow> bool" where
  "gated_after asked [] = True"
| "gated_after asked (PermissionRequested t # cs) = gated_after (t # asked) cs"
| "gated_after asked (ToolExecuted c # cs) = (call_name c \<in> set asked \<and> gated_after asked cs)"

definition permission_gated :: "collaborator_call list \<Rightarrow> bool" where
  "permission_gated calls = gated_after [] calls"

text \<open>
  An agent with one session \<open>S\<close>, an execution collaborator that always succeeds, and
  the \<open>tool_call\<close> message for session \<open>S\<close> and a tool name.
\<close>

definition example_agent :: KodeAcpAgentSimple where
  "example_agent =
     snd (handleNewSession (new_KodeAcpAgentSimple example_config_acp ''/home/u'') ''S'' ''/home/u'')"

definition example_executeTool :: tool_executor where
  "example_executeTool c =
     Inr \<lparr>content = JStr ''done'', tool_use_id = str_or (call_id c) [], is_error = False\<rparr>"

definition example_tool_call :: "string \<Rightarrow> SimpleACPMessage" where
  "example_tool_call n =
     \<lparr>msg_type = ''tool_call'', msg_sessionId = Some ''S'',
      msg_toolCall = Some \<lparr>call_name = n, call_input = JObj [(''path'', JStr ''/x'')],
                            call_id = Some ''t1''\<rparr>\<rparr>"

chapter \<open>Verification\<close>

section \<open>Containers\<close>

lemma map_get_set_same: "map_get (map_set m k v) k = Some v"
  by (simp add: map_get_def map_set_def update_conv')

lemma map_get_set_other: "k' \<noteq> k \<Longrightarrow> map_get (map_set m k v) k' = map_get m k'"
  by (simp add: map_get_def map_set_def update_conv')

section \<open>Permission policy\<close>

lemma modes_new_ToolPermissionManager:
  "modes new_ToolPermissionManager = map (\<lambda>m. (mode_name m, m)) builtin_modes"
  by (simp add: new_ToolPermissionManager_def initializeModes_def builtin_modes_def map_set_def)

lemma map_has_builtin:
  "map_has (map (\<lambda>m. (mode_name m, m)) builtin_modes) n =
     (n = ''default'' \<or> n = ''accept_edits'' \<or> n = ''bypass_permissions'' \<or> n = ''plan'')"
  by (simp add: map_has_def builtin_modes_def)

lemma new_ToolPermissionManager_eq:
  "new_ToolPermissionManager =
     \<lparr>permissions = [], currentMode = ''default'',
      modes = map (\<lambda>m. (mode_name m, m)) builtin_modes\<rparr>"
  by (simp add: new_ToolPermissionManager_def initializeModes_def builtin_modes_def map_set_def)

text \<open>
  Claim C2. \<open>setMode\<close> with a registered mode name makes that name the active mode
  and empties the decision cache (no tool has a recorded decision afterwards); with an
  unregistered name it returns the manager as it was. For a manager holding the built-in
  modes in mode \<open>bypass_permissions\<close>, \<open>requestPermission\<close> approves any tool and
  records the approval, and after \<open>setMode('plan')\<close> the same tool is denied.
\<close>

theorem setMode_switches_and_clears:
  "(map_has (modes pm) n \<longrightarrow>
      currentMode (setMode pm n) = n \<and> permissions (setMode pm n) = [] \<and>
      (\<forall>t. getPermission (setMode pm n) t = None) \<and> modes (setMode pm n) = modes pm) \<and>
   (\<not> map_has (modes pm) n \<longrightarrow> setMode pm n = pm) \<and>
   (modes pm = modes new_ToolPermissionManager \<and> currentMode pm = ''bypass_permissions'' \<longrightarrow>
      fst (requestPermission pm t now) \<and>
      getPermission (snd (requestPermission pm t now)) t =
        Some \<lparr>toolName = t, allowed = True, reason = Some ''Auto-approved by mode'',
              timestamp = now\<rparr> \<and>
      \<not> fst (requestPermission (setMode (snd (requestPermission pm t now)) ''plan'') t now'))"
proof (intro conjI impI)
  assume "map_has (modes pm) n"
  then show "currentMode (setMode pm n) = n" "permissions (setMode pm n) = []"
    "\<forall>t. getPermission (setMode pm n) t = None" "modes (setMode pm n) = modes pm"
    by (simp_all add: setMode_def getPermission_def map_get_def)
next
  assume "\<not> map_has (modes pm) n"
  then show "setMode pm n = pm" by (simp add: setMode_def)
next
  assume a: "modes pm = modes new_ToolPermissionManager \<and> currentMode pm = ''bypass_permissions''"
  let ?r = "requestPermission pm t now"
  have m: "map_get (modes pm) ''bypass_permissions'' =
      Some \<lparr>mode_name = ''bypass_permissions'', description = ''Auto-approve all operations'',
       autoApprove = Some [''*''], autoDeny = None\<rparr>"
    using a by (simp add: modes_new_ToolPermissionManager builtin_modes_def map_get_def)
  have r: "?r = (True, setPermission pm t True (Some ''Auto-approved by mode'') now)"
    using a m by (simp add: requestPermission_def opt_includes_def)
  show "fst ?r" by (simp add: r)
  show "getPermission (snd ?r) t =
        Some \<lparr>toolName = t, allowed = True, reason = Some ''Auto-approved by mode'',
              timestamp = now\<rparr>"
    by (simp add: r getPermission_def setPermission_def map_get_set_same)
  have h: "map_has (modes (snd ?r)) ''plan''"
    using a by (simp add: r setPermission_def modes_new_ToolPermissionManager map_has_builtin)
  have p: "map_get (modes pm) ''plan'' =
      Some \<lparr>mode_name = ''plan'', description = ''Planning mode - no actual operations'',
       autoApprove = None, autoDeny = Some [''*'']\<rparr>"
    using a by (simp add: modes_new_ToolPermissionManager builtin_modes_def map_get_def)
  have s: "setMode (snd ?r) ''plan'' =
      (setPermission pm t True (Some ''Auto-approved by mode'') now)
        \<lparr>currentMode := ''plan'', permissions := []\<rparr>"
    using h unfolding r by (simp add: setMode_def)
  show "\<not> fst (requestPermission (setMode (snd ?r) ''plan'') t now')"
    unfolding s using p by (simp add: requestPermission_def setPermission_def opt_includes_def)
qed

lemma example_bypass_manager_eq:
  "example_bypass_manager =
     \<lparr>permissions = [(''write_file'', \<lparr>toolName = ''write_file'', allowed = True,
          reason = Some ''Auto-approved by mode'', timestamp = 1000\<rparr>)],
      currentMode = ''bypass_permissions'',
      modes = map (\<lambda>m. (mode_name m, m)) builtin_modes\<rparr>"
  by (simp add: example_bypass_manager_def setMode_def map_has_def requestPermission_def map_get_def builtin_modes_def opt_includes_def
      setPermission_def map_set_def new_ToolPermissionManager_eq)

theorem setMode_switches_and_clears_witness:
  "map_has (modes example_bypass_manager) ''plan'' \<and>
   getPermission example_bypass_manager ''write_file'' \<noteq> None \<and>
   currentMode (setMode example_bypass_manager ''plan'') = ''plan'' \<and>
   permissions (setMode example_bypass_manager ''plan'') = [] \<and>
   \<not> map_has (modes example_bypass_manager) ''turbo'' \<and>
   setMode example_bypass_manager ''turbo'' = example_bypass_manager \<and>
   modes example_bypass_manager = modes new_ToolPermissionManager \<and>
   currentMode example_bypass_manager = ''bypass_permissions'' \<and>
   fst (requestPermission example_bypass_manager ''run_command'' 2000) \<and>
   \<not> fst (requestPermission
      (setMode (snd (requestPermission example_bypass_manager ''run_command'' 2000)) ''plan'')
      ''run_command'' 3000)"
proof -
  have h1: "map_has (modes example_bypass_manager) ''plan''"
    by (simp add: example_bypass_manager_eq map_has_builtin)
  have h2: "\<not> map_has (modes example_bypass_manager) ''turbo''"
    by (simp add: example_bypass_manager_eq map_has_builtin)
  have h3: "modes example_bypass_manager = modes new_ToolPermissionManager \<and>
      currentMode example_bypass_manager = ''bypass_permissions''"
    by (simp add: example_bypass_manager_eq modes_new_ToolPermissionManager)
  have h4: "getPermission example_bypass_manager ''write_file'' \<noteq> None"
    by (simp add: example_bypass_manager_eq getPermission_def map_get_def)
  show ?thesis
    using h1 h2 h3 h4
      setMode_switches_and_clears [of example_bypass_manager "''plan''" "''run_command''" 2000 3000]
      setMode_switches_and_clears [of example_bypass_manager "''turbo''" "''run_command''" 2000 3000]
    by simp
qed

text \<open>
  Claim C3, as amended. Under a registered active mode, \<open>requestPermission(t)\<close>
  returns true and records \<open>allowed = true\<close> with reason \<open>Auto-approved by mode\<close> when
  \<open>t\<close> or the wildcard is in \<open>autoApprove\<close>; otherwise returns false and records
  \<open>allowed = false\<close> with reason \<open>Auto-denied by mode\<close> when \<open>t\<close> or the wildcard is in
  \<open>autoDeny\<close>; otherwise returns false and records \<open>allowed = false\<close> with reason
  \<open>Requires explicit approval\<close>. The recorded decision carries the time of the call;
  the active mode and the mode table stay as they were. The reasons start with a capital
  letter: the claim's lower-case strings are not the strings the code records.
\<close>

theorem requestPermission_decision:
  assumes "map_get (modes pm) (currentMode pm) = Some pmode"
  shows "(if opt_includes (autoApprove pmode) ''*'' \<or> opt_includes (autoApprove pmode) t
          then fst (requestPermission pm t now) = True \<and>
               getPermission (snd (requestPermission pm t now)) t =
                 Some \<lparr>toolName = t, allowed = True, reason = Some ''Auto-approved by mode'',
                       timestamp = now\<rparr>
          else if opt_includes (autoDeny pmode) ''*'' \<or> opt_includes (autoDeny pmode) t
          then fst (requestPermission pm t now) = False \<and>
               getPermission (snd (requestPermission pm t now)) t =
                 Some \<lparr>toolName = t, allowed = False, reason = Some ''Auto-denied by mode'',
                       timestamp = now\<rparr>
          else fst (requestPermission pm t now) = False \<and>
               getPermission (snd (requestPermission pm t now)) t =
                 Some \<lparr>toolName = t, allowed = False,
                       reason = Some ''Requires explicit approval'', timestamp = now\<rparr>) \<and>
         currentMode (snd (requestPermission pm t now)) = currentMode pm \<and>
         modes (snd (requestPermission pm t now)) = modes pm"
  using assms
  by (simp add: requestPermission_def getPermission_def setPermission_def map_get_set_same)

theorem requestPermission_decision_witness:
  "map_get (modes new_ToolPermissionManager) (currentMode new_ToolPermissionManager) =
     Some (builtin_modes ! 0) \<and>
   fst (requestPermission new_ToolPermissionManager ''read_file'' 1000) = True \<and>
   getPermission (snd (requestPermission new_ToolPermissionManager ''read_file'' 1000)) ''read_file'' =
     Some \<lparr>toolName = ''read_file'', allowed = True, reason = Some ''Auto-approved by mode'',
           timestamp = 1000\<rparr> \<and>
   fst (requestPermission new_ToolPermissionManager ''run_command'' 1000) = False \<and>
   getPermission (snd (requestPermission new_ToolPermissionManager ''run_command'' 1000)) ''run_command'' =
     Some \<lparr>toolName = ''run_command'', allowed = False, reason = Some ''Auto-denied by mode'',
           timestamp = 1000\<rparr> \<and>
   fst (requestPermission new_ToolPermissionManager ''web_fetch'' 1000) = False \<and>
   getPermission (snd (requestPermission new_ToolPermissionManager ''web_fetch'' 1000)) ''web_fetch'' =
     Some \<lparr>toolName = ''web_fetch'', allowed = False,
           reason = Some ''Requires explicit approval'', timestamp = 1000\<rparr>"
proof -
  have h: "map_get (modes new_ToolPermissionManager) (currentMode new_ToolPermissionManager) =
     Some (builtin_modes ! 0)"
    by (simp add: new_ToolPermissionManager_eq map_get_def builtin_modes_def)
  have m: "builtin_modes ! 0 = \<lparr>mode_name = ''default'', description = ''Manual approval for all tools'',
       autoApprove = Some [''read_file'', ''glob'', ''search''],
       autoDeny = Some [''run_command'', ''edit_file'', ''write_file'']\<rparr>"
    by (simp add: builtin_modes_def)
  show ?thesis
    using h requestPermission_decision [OF h, of "''read_file''" 1000]
      requestPermission_decision [OF h, of "''run_command''" 1000]
      requestPermission_decision [OF h, of "''web_fetch''" 1000]
    by (simp add: m opt_includes_def)
qed

text \<open>
  The claim's reason string is not the recorded one: in mode \<open>default\<close>, whose
  \<open>autoApprove\<close> holds \<open>read_file\<close>, the decision recorded for \<open>read_file\<close> has reason
  \<open>Auto-approved by mode\<close>, which differs from \<open>auto-approved by mode\<close>.
\<close>

theorem requestPermission_reason_counterexample:
  "map_option autoApprove
     (map_get (modes new_ToolPermissionManager) (currentMode new_ToolPermissionManager)) =
     Some (Some [''read_file'', ''glob'', ''search'']) \<and>
   map_option reason
     (getPermission (snd (requestPermission new_ToolPermissionManager ''read_file'' 1000))
        ''read_file'') = Some (Some ''Auto-approved by mode'') \<and>
   map_option reason
     (getPermission (snd (requestPermission new_ToolPermissionManager ''read_file'' 1000))
        ''read_file'') \<noteq> Some (Some ''auto-approved by mode'')"
proof -
  have h: "map_get (modes new_ToolPermissionManager) (currentMode new_ToolPermissionManager) =
     Some \<lparr>mode_name = ''default'', description = ''Manual approval for all tools'',
       autoApprove = Some [''read_file'', ''glob'', ''search''],
       autoDeny = Some [''run_command'', ''edit_file'', ''write_file'']\<rparr>"
    by (simp add: new_ToolPermissionManager_eq map_get_def builtin_modes_def)
  show ?thesis
    by (simp add: h requestPermission_def opt_includes_def getPermission_def setPermission_def
        map_get_set_same)
qed

section \<open>More on containers\<close>

lemma map_has_iff_keys: "map_has m k = (k \<in> fst ` set m)"
  by (auto simp: map_has_def map_of_eq_None_iff split: option.splits dest: map_of_SomeD
      intro: rev_image_eqI)

lemma length_alist_update:
  "length (AList.update k v al) = (if k \<in> fst ` set al then length al else Suc (length al))"
  by (induction al) auto

lemma map_size_set: "map_size (map_set m k v) = (if map_has m k then map_size m else Suc (map_size m))"
  by (simp add: map_size_def map_set_def map_has_iff_keys length_alist_update)

lemma map_keys_set: "map_keys (map_set m k v) = (if map_has m k then map_keys m else map_keys m @ [k])"
  by (simp add: map_keys_def map_set_def map_has_iff_keys update_keys)

lemma map_delete_filter: "map_delete m k = filter (\<lambda>e. fst e \<noteq> k) m"
  by (induction m) (auto simp: map_delete_def)

lemma filter_by_selected_keys:
  "distinct (map fst m) \<Longrightarrow>
   filter (\<lambda>e. fst e \<notin> set (map fst (filter P m))) m = filter (\<lambda>e. \<not> P e) m"
proof (rule filter_cong [OF refl])
  fix e assume dist: "distinct (map fst m)" and e: "e \<in> set m"
  have "fst e \<in> fst ` set (filter P m) \<longleftrightarrow> P e"
  proof
    assume "fst e \<in> fst ` set (filter P m)"
    then obtain e' where e': "e' \<in> set m" "P e'" "fst e' = fst e" by auto
    with dist e have "e' = e" by (metis eq_key_imp_eq_value prod.collapse)
    with e' show "P e" by simp
  next
    assume "P e" with e show "fst e \<in> fst ` set (filter P m)" by auto
  qed
  then show "(fst e \<notin> set (map fst (filter P m))) = (\<not> P e)" by simp
qed

lemma map_get_of_member:
  "distinct (map fst m) \<Longrightarrow> e \<in> set m \<Longrightarrow> map_get m (fst e) = Some (snd e)"
  by (simp add: map_get_def)

section \<open>Session store: the idle sweep\<close>

lemma destroySession_present:
  "map_get (sessions st) k = Some s \<Longrightarrow>
   snd (destroySession st k now) =
     st\<lparr>sessions := map_delete (sessions st) k,
        emitted := emitted st @ [destroyed_event now (k, s)]\<rparr>"
  by (simp add: destroySession_def emit_def destroyed_event_def)

lemma sweep_fold:
  "distinct ks \<Longrightarrow> \<forall>k\<in>set ks. map_get (sessions st) k \<noteq> None \<Longrightarrow>
   foldl (\<lambda>s k. snd (destroySession s k now)) st ks =
     st\<lparr>sessions := filter (\<lambda>e. fst e \<notin> set ks) (sessions st),
        emitted := emitted st @
          map (\<lambda>k. destroyed_event now (k, the (map_get (sessions st) k))) ks\<rparr>"
proof (induction ks arbitrary: st)
  case Nil
  then show ?case by simp
next
  case (Cons k ks)
  from Cons.prems obtain s where s: "map_get (sessions st) k = Some s" by auto
  let ?st1 = "st\<lparr>sessions := map_delete (sessions st) k,
        emitted := emitted st @ [destroyed_event now (k, s)]\<rparr>"
  have k: "k \<notin> set ks" and d: "distinct ks" using Cons.prems by auto
  have keep: "\<And>k'. k' \<in> set ks \<Longrightarrow> map_get (sessions ?st1) k' = map_get (sessions st) k'"
    using k by (auto simp: map_get_def map_delete_def delete_conv')
  have pre: "\<forall>k'\<in>set ks. map_get (sessions ?st1) k' \<noteq> None"
    using Cons.prems keep by auto
  have "foldl (\<lambda>s k. snd (destroySession s k now)) st (k # ks) =
        foldl (\<lambda>s k. snd (destroySession s k now)) ?st1 ks"
    by (simp add: destroySession_present [OF s])
  also have "\<dots> = ?st1\<lparr>sessions := filter (\<lambda>e. fst e \<notin> set ks) (sessions ?st1),
        emitted := emitted ?st1 @
          map (\<lambda>k. destroyed_event now (k, the (map_get (sessions ?st1) k))) ks\<rparr>"
    by (rule Cons.IH [OF d pre])
  also have "map (\<lambda>k. destroyed_event now (k, the (map_get (sessions ?st1) k))) ks =
             map (\<lambda>k. destroyed_event now (k, the (map_get (sessions st) k))) ks"
    using keep by (intro map_cong) auto
  finally show ?case
    by (simp add: s map_delete_filter conj_commute)
qed

text \<open>
  The sweep as a whole, for a store whose keys are distinct (as the keys of a \<open>Map\<close>
  are): the entries that are inactive or idle for the timeout or longer are removed, one
  \<open>destroyed\<close> event is emitted for each in store order, and one \<open>timeout\<close> event
  listing their ids follows when there is at least one.
\<close>

lemma cleanupExpiredSessions_eq:
  assumes "distinct (map fst (sessions st))"
  shows "cleanupExpiredSessions st now =
     (length (filter (\<lambda>e. is_expired st now (snd e)) (sessions st)),
      st\<lparr>sessions := filter (\<lambda>e. \<not> is_expired st now (snd e)) (sessions st),
         emitted := emitted st @
           map (destroyed_event now) (filter (\<lambda>e. is_expired st now (snd e)) (sessions st)) @
           (if filter (\<lambda>e. is_expired st now (snd e)) (sessions st) \<noteq> []
            then [\<lparr>ev_type = Timeout, ev_sessionId = [], ev_timestamp = now,
                   ev_data = DataExpired
                     (map fst (filter (\<lambda>e. is_expired st now (snd e)) (sessions st)))\<rparr>]
            else [])\<rparr>)"
proof -
  let ?P = "\<lambda>e. is_expired st now (snd e)"
  let ?ex = "filter ?P (sessions st)"
  let ?ks = "map fst ?ex"
  have dks: "distinct ?ks" using assms by (simp add: distinct_map_filter)
  have pres: "\<forall>k\<in>set ?ks. map_get (sessions st) k \<noteq> None"
    using assms by (auto simp: map_get_of_member)
  have evs: "map (\<lambda>k. destroyed_event now (k, the (map_get (sessions st) k))) ?ks =
             map (destroyed_event now) ?ex"
    using assms by (auto simp: map_get_of_member)
  have "foldl (\<lambda>s k. snd (destroySession s k now)) st ?ks =
     st\<lparr>sessions := filter (\<lambda>e. fst e \<notin> set ?ks) (sessions st),
        emitted := emitted st @
          map (\<lambda>k. destroyed_event now (k, the (map_get (sessions st) k))) ?ks\<rparr>"
    by (rule sweep_fold [OF dks pres])
  then have fold: "foldl (\<lambda>s k. snd (destroySession s k now)) st ?ks =
     st\<lparr>sessions := filter (\<lambda>e. \<not> ?P e) (sessions st),
        emitted := emitted st @ map (destroyed_event now) ?ex\<rparr>"
    by (simp only: evs filter_by_selected_keys [OF assms])
  show ?thesis
    unfolding cleanupExpiredSessions_def Let_def fold
    by (simp add: emit_def)
qed

lemma destroySession_maxSessions:
  "maxSessions (snd (destroySession st k now)) = maxSessions st"
  by (simp add: destroySession_def emit_def split: option.splits)

lemma sweep_fold_maxSessions:
  "maxSessions (foldl (\<lambda>s k. snd (destroySession s k now)) st ks) = maxSessions st"
  by (induction ks arbitrary: st) (simp_all add: destroySession_maxSessions)

lemma cleanupExpiredSessions_maxSessions:
  "maxSessions (snd (cleanupExpiredSessions st now)) = maxSessions st"
  by (simp add: cleanupExpiredSessions_def Let_def emit_def sweep_fold_maxSessions)

section \<open>Session store: import\<close>

lemma example_store_eq:
  "example_store =
     \<lparr>sessions = [(''s1'',
         \<lparr>session_id = ''s1'', mode = ''default'', workingDirectory = ''/home/u'',
          permissionMode = ''yolo'', createdAt = 1000, lastActivity = 1000,
          toolCallCount = 0, isActive = True, metadata = 0\<rparr>)],
      permissionManager = new_ToolPermissionManager,
      defaultSessionTimeout = 1800000, maxSessions = 100,
      emitted = [\<lparr>ev_type = Created, ev_sessionId = ''s1'', ev_timestamp = 1000,
         ev_data = DataSession
           \<lparr>session_id = ''s1'', mode = ''default'', workingDirectory = ''/home/u'',
            permissionMode = ''yolo'', createdAt = 1000, lastActivity = 1000,
            toolCallCount = 0, isActive = True, metadata = 0\<rparr>\<rparr>],
      heap = (\<lambda>r. [])(0 := []), next_ref = Suc 0\<rparr>"
  by (simp add: example_store_def createSession_def allocateSession_def Let_def
      new_SessionManager_def map_size_def str_or_def example_config_def emit_def map_set_def
      setMode_def new_ToolPermissionManager_eq map_has_def builtin_modes_def)

lemma importSession_eq:
  "importSession st d generated cwd now =
     (str_or (d_id d) generated,
      st\<lparr>heap := (heap st)(next_ref st :=
                new_Map (object_entries (case d_metadata d of None \<Rightarrow> [] | Some obj \<Rightarrow> obj))),
         next_ref := Suc (next_ref st),
         sessions := map_set (sessions st) (str_or (d_id d) generated)
                       (imported_session st d generated cwd now),
         permissionManager :=
           setMode (permissionManager st) (str_or (d_mode d) ''default''),
         emitted := emitted st @ [imported_event now (imported_session st d generated cwd now)]\<rparr>)"
  by (simp add: importSession_def Let_def emit_def imported_session_def imported_event_def)

text \<open>
  Claim C10. \<open>importSession\<close> has no failing branch: it returns the id it stored the
  session under (the snapshot's id, or a generated one when the snapshot has none). The
  session stored under that id is the one built from the snapshot: its fields are the
  snapshot's, it is active, its id is the returned id, and its metadata map holds the
  snapshot's metadata entries. Every other key of the store keeps its session, the
  permission manager is set to the imported mode, and the events emitted by the call are
  exactly one \<open>created\<close> event carrying \<open>imported\<close> and the stored session. When the
  snapshot's id is the key of a live session, that session is replaced by the imported
  one where it stands: the store has the same size and the same keys in the same order,
  and no \<open>destroyed\<close> event is emitted for the session that was replaced.
\<close>

theorem importSession_replaces_in_place:
  "fst (importSession st d generated cwd now) = str_or (d_id d) generated \<and>
   map_get (sessions (snd (importSession st d generated cwd now)))
     (fst (importSession st d generated cwd now)) =
     Some (imported_session st d generated cwd now) \<and>
   session_id (imported_session st d generated cwd now) =
     fst (importSession st d generated cwd now) \<and>
   isActive (imported_session st d generated cwd now) \<and>
   heap (snd (importSession st d generated cwd now))
     (metadata (imported_session st d generated cwd now)) =
     new_Map (object_entries (case d_metadata d of None \<Rightarrow> [] | Some obj \<Rightarrow> obj)) \<and>
   emitted (snd (importSession st d generated cwd now)) =
     emitted st @ [imported_event now (imported_session st d generated cwd now)] \<and>
   permissionManager (snd (importSession st d generated cwd now)) =
     setMode (permissionManager st) (mode (imported_session st d generated cwd now)) \<and>
   (\<forall>k. k \<noteq> fst (importSession st d generated cwd now) \<longrightarrow>
      map_get (sessions (snd (importSession st d generated cwd now))) k =
      map_get (sessions st) k) \<and>
   (\<forall>i. d_id d = Some i \<and> i \<noteq> [] \<and> map_has (sessions st) i \<longrightarrow>
      fst (importSession st d generated cwd now) = i \<and>
      map_get (sessions (snd (importSession st d generated cwd now))) i =
        Some (imported_session st d generated cwd now) \<and>
      session_id (imported_session st d generated cwd now) = i \<and>
      map_size (sessions (snd (importSession st d generated cwd now))) = map_size (sessions st) \<and>
      map_keys (sessions (snd (importSession st d generated cwd now))) = map_keys (sessions st) \<and>
      (\<forall>k. k \<noteq> i \<longrightarrow>
         map_get (sessions (snd (importSession st d generated cwd now))) k =
         map_get (sessions st) k) \<and>
      emitted (snd (importSession st d generated cwd now)) =
        emitted st @ [\<lparr>ev_type = Created, ev_sessionId = i, ev_timestamp = now,
                        ev_data = DataImported (imported_session st d generated cwd now)\<rparr>])"
proof -
  have sid: "session_id (imported_session st d generated cwd now) = str_or (d_id d) generated"
    and act: "isActive (imported_session st d generated cwd now)"
    and ref: "metadata (imported_session st d generated cwd now) = next_ref st"
    and md: "mode (imported_session st d generated cwd now) = str_or (d_mode d) ''default''"
    by (simp_all add: imported_session_def)
  show ?thesis
    unfolding importSession_eq
    by (auto simp: sid act ref md map_get_set_same map_get_set_other map_size_set map_keys_set
        imported_event_def str_or_def)
qed

theorem importSession_replaces_in_place_witness:
  "d_id example_data = Some ''s1'' \<and> map_has (sessions example_store) ''s1'' \<and>
   map_get (sessions example_store) ''s1'' =
     Some \<lparr>session_id = ''s1'', mode = ''default'', workingDirectory = ''/home/u'',
           permissionMode = ''yolo'', createdAt = 1000, lastActivity = 1000,
           toolCallCount = 0, isActive = True, metadata = 0\<rparr> \<and>
   fst (importSession example_store example_data ''gen-2'' ''/home/u'' 5000) = ''s1'' \<and>
   map_get (sessions (snd (importSession example_store example_data ''gen-2'' ''/home/u'' 5000)))
     ''s1'' =
     Some \<lparr>session_id = ''s1'', mode = ''plan'', workingDirectory = ''/srv'',
           permissionMode = ''conservative'', createdAt = 10, lastActivity = 20,
           toolCallCount = 7, isActive = True, metadata = 1\<rparr> \<and>
   heap (snd (importSession example_store example_data ''gen-2'' ''/home/u'' 5000)) 1 =
     [(''owner'', JStr ''ann'')] \<and>
   map_size (sessions (snd (importSession example_store example_data ''gen-2'' ''/home/u'' 5000)))
     = map_size (sessions example_store) \<and>
   map_keys (sessions (snd (importSession example_store example_data ''gen-2'' ''/home/u'' 5000)))
     = [''s1''] \<and>
   map (\<lambda>e. (ev_type e, ev_sessionId e))
     (emitted (snd (importSession example_store example_data ''gen-2'' ''/home/u'' 5000))) =
     [(Created, ''s1''), (Created, ''s1'')]"
proof -
  let ?r = "importSession example_store example_data ''gen-2'' ''/home/u'' 5000"
  let ?s = "imported_session example_store example_data ''gen-2'' ''/home/u'' 5000"
  have h: "d_id example_data = Some ''s1'' \<and> ''s1'' \<noteq> [] \<and> map_has (sessions example_store) ''s1''"
    by (simp add: example_data_def example_store_eq map_has_def)
  have old: "map_get (sessions example_store) ''s1'' =
     Some \<lparr>session_id = ''s1'', mode = ''default'', workingDirectory = ''/home/u'',
           permissionMode = ''yolo'', createdAt = 1000, lastActivity = 1000,
           toolCallCount = 0, isActive = True, metadata = 0\<rparr>"
    by (simp add: example_store_eq map_get_def)
  have s: "?s = \<lparr>session_id = ''s1'', mode = ''plan'', workingDirectory = ''/srv'',
           permissionMode = ''conservative'', createdAt = 10, lastActivity = 20,
           toolCallCount = 7, isActive = True, metadata = 1\<rparr>"
    by (simp add: imported_session_def example_data_def example_store_eq str_or_def num_or_def)
  have m: "new_Map (object_entries
      (case d_metadata example_data of None \<Rightarrow> [] | Some obj \<Rightarrow> obj)) = [(''owner'', JStr ''ann'')]"
    by (simp add: example_data_def object_entries_def is_array_index_def is_digit_def new_Map_def
        map_set_def)
  have k: "map_keys (sessions example_store) = [''s1'']"
       "map (\<lambda>e. (ev_type e, ev_sessionId e)) (emitted example_store) = [(Created, ''s1'')]"
    by (simp_all add: example_store_eq map_keys_def)
  note T = importSession_replaces_in_place
    [of example_store example_data "''gen-2''" "''/home/u''" 5000]
  from T have hp: "heap (snd ?r) (metadata ?s) =
      new_Map (object_entries (case d_metadata example_data of None \<Rightarrow> [] | Some obj \<Rightarrow> obj))"
    by blast
  from T have "\<forall>i. d_id example_data = Some i \<and> i \<noteq> [] \<and> map_has (sessions example_store) i \<longrightarrow>
      fst ?r = i \<and> map_get (sessions (snd ?r)) i = Some ?s \<and>
      map_size (sessions (snd ?r)) = map_size (sessions example_store) \<and>
      map_keys (sessions (snd ?r)) = map_keys (sessions example_store) \<and>
      emitted (snd ?r) =
        emitted example_store @ [\<lparr>ev_type = Created, ev_sessionId = i, ev_timestamp = 5000,
                        ev_data = DataImported ?s\<rparr>]"
    by blast
  with h have "fst ?r = ''s1'' \<and> map_get (sessions (snd ?r)) ''s1'' = Some ?s \<and>
      map_size (sessions (snd ?r)) = map_size (sessions example_store) \<and>
      map_keys (sessions (snd ?r)) = map_keys (sessions example_store) \<and>
      emitted (snd ?r) =
        emitted example_store @ [\<lparr>ev_type = Created, ev_sessionId = ''s1'', ev_timestamp = 5000,
                        ev_data = DataImported ?s\<rparr>]"
    by blast
  with h old k hp show ?thesis by (simp add: s m)
qed

section \<open>Session store: creation at the cap\<close>

lemma alist_update_fresh: "k \<notin> fst ` set al \<Longrightarrow> AList.update k v al = al @ [(k, v)]"
  by (induction al) auto

lemma map_set_fresh: "\<not> map_has m k \<Longrightarrow> map_set m k v = m @ [(k, v)]"
  by (simp add: map_set_def map_has_iff_keys alist_update_fresh)

lemma filter_keeps_all:
  assumes "length xs \<le> length (filter P xs)"
  shows "filter P xs = xs" and "filter (\<lambda>x. \<not> P x) xs = []"
proof -
  have "length (filter P xs) = length xs"
    using assms length_filter_le [of P xs] by simp
  then have all: "\<forall>x\<in>set xs. P x"
    by (metis filter_id_conv length_filter_less less_irrefl)
  then show "filter P xs = xs" by simp
  from all show "filter (\<lambda>x. \<not> P x) xs = []" by (simp add: filter_empty_conv)
qed

lemma cleanupExpiredSessions_state:
  assumes "distinct (map fst (sessions st))"
  shows "snd (cleanupExpiredSessions st now) =
      st\<lparr>sessions := filter (\<lambda>e. \<not> is_expired st now (snd e)) (sessions st),
         emitted := emitted st @
           map (destroyed_event now) (filter (\<lambda>e. is_expired st now (snd e)) (sessions st)) @
           timeout_event now (filter (\<lambda>e. is_expired st now (snd e)) (sessions st))\<rparr>"
  by (simp add: cleanupExpiredSessions_eq [OF assms] timeout_event_def)

lemma example_key_inj: "example_key i = example_key j \<longleftrightarrow> i = j"
  by (auto simp: example_key_def dest: arg_cong [where f = length])

lemma example_filled_store_fields:
  "n \<le> 100 \<Longrightarrow>
   sessions (example_filled_store n) = map (\<lambda>i. (example_key i, example_session i)) [0..<n] \<and>
   maxSessions (example_filled_store n) = 100 \<and>
   defaultSessionTimeout (example_filled_store n) = 1800000 \<and>
   next_ref (example_filled_store n) = n"
proof (induction n)
  case 0
  then show ?case by (simp add: example_filled_store_def new_SessionManager_def)
next
  case (Suc n)
  let ?st = "example_filled_store n"
  have ih: "sessions ?st = map (\<lambda>i. (example_key i, example_session i)) [0..<n]"
    "maxSessions ?st = 100" "defaultSessionTimeout ?st = 1800000" "next_ref ?st = n"
    using Suc by simp_all
  have step: "example_filled_store (Suc n) =
      snd (createSession ?st empty_config (example_key n) ''/home/u'' 1000)"
    by (simp add: example_filled_store_def)
  have fresh: "\<not> map_has (sessions ?st) (example_key n)"
    by (auto simp: ih map_has_iff_keys example_key_inj)
  have below: "\<not> maxSessions ?st \<le> map_size (sessions ?st)"
    using Suc.prems by (simp add: ih map_size_def)
  show ?case
    unfolding step
    using below fresh
    by (simp add: createSession_def allocateSession_def Let_def emit_def map_set_fresh
        str_or_def empty_config_def ih example_session_def)
qed

lemma example_session_not_expired:
  "n \<le> 100 \<Longrightarrow> now < 1801000 \<Longrightarrow>
   filter (\<lambda>e. \<not> is_expired (example_filled_store n) now (snd e))
     (map (\<lambda>i. (example_key i, example_session i)) [0..<n]) =
   map (\<lambda>i. (example_key i, example_session i)) [0..<n]"
  by (simp add: is_expired_def example_filled_store_fields example_session_def)

lemma example_session_expired:
  "n \<le> 100 \<Longrightarrow> 1801000 \<le> now \<Longrightarrow>
   filter (\<lambda>e. \<not> is_expired (example_filled_store n) now (snd e))
     (map (\<lambda>i. (example_key i, example_session i)) [0..<n]) = []"
  by (simp add: is_expired_def example_filled_store_fields example_session_def filter_empty_conv)

text \<open>
  Claim C4, as amended. For a store with distinct keys whose size is at or above the
  cap, \<open>createSession\<close> first sweeps: what remains are exactly the sessions that are
  active and idle for less than the timeout, a \<open>destroyed\<close> event is emitted for every
  other session, then the \<open>timeout\<close> event. If the remaining sessions still number at
  least the cap, the call fails with the capacity error and adds nothing: the store is
  left as the sweep left it, and when the size was exactly the cap (so the sweep removed
  nothing) the whole state is as before the call. Otherwise the call goes on and stores
  the new session in the swept store.
\<close>

theorem createSession_at_capacity:
  assumes "distinct (map_keys (sessions st))"
    and "maxSessions st \<le> map_size (sessions st)"
  shows "(if maxSessions st \<le>
            map_size (filter (\<lambda>e. \<not> is_expired st now (snd e)) (sessions st))
          then fst (createSession st config generated cwd now) =
                 Inl (MaxSessionLimitReached (maxSessions st)) \<and>
               snd (createSession st config generated cwd now) =
                 st\<lparr>sessions := filter (\<lambda>e. \<not> is_expired st now (snd e)) (sessions st),
                    emitted := emitted st @
                      map (destroyed_event now)
                        (filter (\<lambda>e. is_expired st now (snd e)) (sessions st)) @
                      timeout_event now
                        (filter (\<lambda>e. is_expired st now (snd e)) (sessions st))\<rparr> \<and>
               (map_size (sessions st) = maxSessions st \<longrightarrow>
                  snd (createSession st config generated cwd now) = st)
          else fst (createSession st config generated cwd now) =
                 Inr (str_or (cfg_id config) generated) \<and>
               sessions (snd (createSession st config generated cwd now)) =
                 map_set (filter (\<lambda>e. \<not> is_expired st now (snd e)) (sessions st))
                   (str_or (cfg_id config) generated)
                   (created_session st config generated cwd now) \<and>
               emitted (snd (createSession st config generated cwd now)) =
                 emitted st @
                 map (destroyed_event now)
                   (filter (\<lambda>e. is_expired st now (snd e)) (sessions st)) @
                 timeout_event now (filter (\<lambda>e. is_expired st now (snd e)) (sessions st)) @
                 [created_event now (created_session st config generated cwd now)])"
proof -
  let ?keep = "filter (\<lambda>e. \<not> is_expired st now (snd e)) (sessions st)"
  let ?gone = "filter (\<lambda>e. is_expired st now (snd e)) (sessions st)"
  have d: "distinct (map fst (sessions st))" using assms(1) by (simp add: map_keys_def)
  note sweep = cleanupExpiredSessions_state [OF d, of now]
  show ?thesis
  proof (cases "maxSessions st \<le> map_size ?keep")
    case True
    have "map_size (sessions st) = maxSessions st \<Longrightarrow>
        st\<lparr>sessions := ?keep,
           emitted := emitted st @ map (destroyed_event now) ?gone @ timeout_event now ?gone\<rparr> = st"
      using True filter_keeps_all [of "sessions st" "\<lambda>e. \<not> is_expired st now (snd e)"]
      by (simp add: map_size_def timeout_event_def)
    with True assms(2) show ?thesis
      by (simp add: createSession_def Let_def sweep)
  next
    case False
    with assms(2) show ?thesis
      by (simp add: createSession_def Let_def sweep allocateSession_def emit_def
          created_session_def created_event_def)
  qed
qed

theorem createSession_at_capacity_witness:
  "distinct (map_keys (sessions (example_filled_store 100))) \<and>
   maxSessions (example_filled_store 100) \<le> map_size (sessions (example_filled_store 100)) \<and>
   fst (createSession (example_filled_store 100) example_config ''gen'' ''/home/u'' 2000) =
     Inl (MaxSessionLimitReached 100) \<and>
   snd (createSession (example_filled_store 100) example_config ''gen'' ''/home/u'' 2000) =
     example_filled_store 100 \<and>
   fst (createSession (example_filled_store 100) example_config ''gen'' ''/home/u'' 1801000) =
     Inr ''s1'' \<and>
   map_keys (sessions
     (snd (createSession (example_filled_store 100) example_config ''gen'' ''/home/u'' 1801000))) =
     [''s1'']"
proof -
  let ?st = "example_filled_store 100"
  note f = example_filled_store_fields [of 100, simplified]
  have s: "sessions ?st = map (\<lambda>i. (example_key i, example_session i)) [0..<100]"
    using f by simp
  have h1: "distinct (map_keys (sessions ?st))"
    by (simp add: s map_keys_def distinct_map comp_def inj_on_def example_key_inj)
  have h2: "maxSessions ?st \<le> map_size (sessions ?st)"
    using f by (simp add: map_size_def)
  have k1: "filter (\<lambda>e. \<not> is_expired ?st 2000 (snd e)) (sessions ?st) = sessions ?st"
    unfolding s by (rule example_session_not_expired) simp_all
  have k2: "filter (\<lambda>e. \<not> is_expired ?st 1801000 (snd e)) (sessions ?st) = []"
    unfolding s by (rule example_session_expired) simp_all
  have c1: "maxSessions ?st \<le> map_size (filter (\<lambda>e. \<not> is_expired ?st 2000 (snd e)) (sessions ?st))"
    unfolding k1 by (rule h2)
  have c2: "\<not> maxSessions ?st \<le>
      map_size (filter (\<lambda>e. \<not> is_expired ?st 1801000 (snd e)) (sessions ?st))"
    unfolding k2 using f by (simp add: map_size_def)
  have sz: "map_size (sessions ?st) = maxSessions ?st"
    using f by (simp add: map_size_def)
  have m: "maxSessions ?st = 100" using f by simp
  have "fst (createSession ?st example_config ''gen'' ''/home/u'' 2000) =
          Inl (MaxSessionLimitReached (maxSessions ?st)) \<and>
        (map_size (sessions ?st) = maxSessions ?st \<longrightarrow>
           snd (createSession ?st example_config ''gen'' ''/home/u'' 2000) = ?st)"
    using createSession_at_capacity [OF h1 h2, of 2000 example_config "''gen''" "''/home/u''"]
    unfolding if_P [OF c1] by blast
  with sz m have r1: "fst (createSession ?st example_config ''gen'' ''/home/u'' 2000) =
      Inl (MaxSessionLimitReached 100) \<and>
      snd (createSession ?st example_config ''gen'' ''/home/u'' 2000) = ?st"
    by simp
  have "fst (createSession ?st example_config ''gen'' ''/home/u'' 1801000) =
          Inr (str_or (cfg_id example_config) ''gen'') \<and>
        sessions (snd (createSession ?st example_config ''gen'' ''/home/u'' 1801000)) =
          map_set (filter (\<lambda>e. \<not> is_expired ?st 1801000 (snd e)) (sessions ?st))
            (str_or (cfg_id example_config) ''gen'')
            (created_session ?st example_config ''gen'' ''/home/u'' 1801000)"
    using createSession_at_capacity [OF h1 h2, of 1801000 example_config "''gen''" "''/home/u''"]
    unfolding if_not_P [OF c2] by blast
  then have r2: "fst (createSession ?st example_config ''gen'' ''/home/u'' 1801000) = Inr ''s1'' \<and>
      map_keys (sessions (snd (createSession ?st example_config ''gen'' ''/home/u'' 1801000))) =
      [''s1'']"
    by (simp add: k2 example_config_def str_or_def map_set_def map_keys_def)
  from h1 h2 r1 r2 show ?thesis by simp
qed

lemma example_key_not_old: "example_key i \<noteq> ''old''" "''old'' \<noteq> example_key i"
  by (simp_all add: example_key_def)

lemma example_overfull_store_fields:
  "sessions example_overfull_store =
     map (\<lambda>i. (example_key i, example_session i)) [0..<100] @
     [(''old'', \<lparr>session_id = ''old'', mode = ''default'', workingDirectory = ''/home/u'',
                 permissionMode = ''yolo'', createdAt = 5, lastActivity = 5, toolCallCount = 0,
                 isActive = True, metadata = 100\<rparr>)]"
  "maxSessions example_overfull_store = 100"
  "defaultSessionTimeout example_overfull_store = 1800000"
proof -
  note f = example_filled_store_fields [of 100, simplified]
  have fresh: "\<not> map_has (sessions (example_filled_store 100)) ''old''"
    using f by (auto simp: map_has_iff_keys example_key_not_old)
  show "sessions example_overfull_store =
     map (\<lambda>i. (example_key i, example_session i)) [0..<100] @
     [(''old'', \<lparr>session_id = ''old'', mode = ''default'', workingDirectory = ''/home/u'',
                 permissionMode = ''yolo'', createdAt = 5, lastActivity = 5, toolCallCount = 0,
                 isActive = True, metadata = 100\<rparr>)]"
    using f fresh
    by (simp add: example_overfull_store_def importSession_def Let_def emit_def map_set_fresh
        example_old_data_def str_or_def num_or_def)
  show "maxSessions example_overfull_store = 100"
    "defaultSessionTimeout example_overfull_store = 1800000"
    using f by (simp_all add: example_overfull_store_def importSession_def Let_def emit_def)
qed

text \<open>
  The store's size does change in a failing call when the store is above the cap: the
  over-full store holds 101 sessions, one of them idle past the timeout at time 1800010;
  \<open>createSession\<close> sweeps that one away, finds 100 sessions left, fails with the
  capacity error, and leaves 100 sessions.
\<close>

theorem createSession_failure_shrinks_counterexample:
  "map_size (sessions example_overfull_store) = 101 \<and>
   fst (createSession example_overfull_store example_config ''gen'' ''/home/u'' 1800010) =
     Inl (MaxSessionLimitReached 100) \<and>
   map_size (sessions
     (snd (createSession example_overfull_store example_config ''gen'' ''/home/u'' 1800010))) = 100"
proof -
  let ?st = "example_overfull_store"
  let ?old = "(''old'', \<lparr>session_id = ''old'', mode = ''default'', workingDirectory = ''/home/u'',
                 permissionMode = ''yolo'', createdAt = 5, lastActivity = 5, toolCallCount = 0,
                 isActive = True, metadata = 100\<rparr>)"
  note f = example_overfull_store_fields
  have sz: "map_size (sessions ?st) = 101" by (simp add: f map_size_def)
  have d: "distinct (map fst (sessions ?st))"
    by (simp add: f distinct_map comp_def inj_on_def example_key_inj example_key_not_old
        image_iff)
  have keep: "filter (\<lambda>e. \<not> is_expired ?st 1800010 (snd e)) (sessions ?st) =
      map (\<lambda>i. (example_key i, example_session i)) [0..<100]"
    by (simp add: f is_expired_def example_session_def)
  have sw: "sessions (snd (cleanupExpiredSessions ?st 1800010)) =
      map (\<lambda>i. (example_key i, example_session i)) [0..<100]"
    by (simp add: cleanupExpiredSessions_state [OF d] keep)
  have m: "maxSessions (snd (cleanupExpiredSessions ?st 1800010)) = 100"
    by (simp add: cleanupExpiredSessions_maxSessions f)
  have r: "createSession ?st example_config ''gen'' ''/home/u'' 1800010 =
      (Inl (MaxSessionLimitReached 100), snd (cleanupExpiredSessions ?st 1800010))"
    using sz by (simp add: createSession_def Let_def sw m f(2) map_size_def)
  show ?thesis by (simp add: sz r sw) (simp add: map_size_def)
qed

section \<open>Session store: creation with a live id\<close>

lemma example_used_store_sessions:
  "sessions example_used_store =
     [(''s1'',
       \<lparr>session_id = ''s1'', mode = ''default'', workingDirectory = ''/home/u'',
        permissionMode = ''yolo'', createdAt = 1000, lastActivity = 2000,
        toolCallCount = 1, isActive = True, metadata = 0\<rparr>)]"
  "maxSessions example_used_store = 100"
  by (simp_all add: example_used_store_def example_store_eq incrementToolCall_def map_get_def
      map_set_def)




section \<open>Objects and maps: entries survive the conversion\<close>

lemma set_alist_update: "set (AList.update k v al) \<subseteq> insert (k, v) (set al)"
  by (induction al) auto

lemma set_map_set: "e \<in> set (map_set m k v) \<Longrightarrow> e = (k, v) \<or> e \<in> set m"
  using set_alist_update [of k v m] by (auto simp: map_set_def)

lemma distinct_map_set: "distinct (map fst m) \<Longrightarrow> distinct (map fst (map_set m k v))"
  by (simp add: map_set_def distinct_update)

lemma set_map_delete: "set (map_delete m k) \<subseteq> set m"
  by (auto simp: map_delete_filter)

lemma distinct_map_delete: "distinct (map fst m) \<Longrightarrow> distinct (map fst (map_delete m k))"
  by (simp add: map_delete_def distinct_delete)

lemma map_get_member: "map_get m k = Some v \<Longrightarrow> (k, v) \<in> set m"
  by (simp add: map_get_def map_of_SomeD)

lemma fold_update_fresh:
  "distinct (map fst (acc @ es)) \<Longrightarrow>
   foldl (\<lambda>obj e. AList.update (fst e) (snd e) obj) acc es = acc @ es"
proof (induction es arbitrary: acc)
  case Nil
  then show ?case by simp
next
  case (Cons e es)
  have "fst e \<notin> fst ` set acc" using Cons.prems by auto
  then have u: "AList.update (fst e) (snd e) acc = acc @ [e]"
    by (simp add: alist_update_fresh)
  have "distinct (map fst ((acc @ [e]) @ es))" using Cons.prems by simp
  from Cons.IH [OF this] show ?case by (simp add: u)
qed

lemma object_fromEntries_distinct:
  "distinct (map fst es) \<Longrightarrow> object_fromEntries es = es"
  using fold_update_fresh [of "[]" es] by (simp add: object_fromEntries_def)

lemma new_Map_distinct: "distinct (map fst es) \<Longrightarrow> new_Map es = es"
  using fold_update_fresh [of "[]" es] by (simp add: new_Map_def map_set_def)

lemma distinct_new_Map: "distinct (map fst (new_Map es))"
proof -
  have "distinct (map fst acc) \<Longrightarrow>
      distinct (map fst (foldl (\<lambda>m e. map_set m (fst e) (snd e)) acc es))" for acc :: "('a \<times> 'b) list"
    by (induction es arbitrary: acc) (simp_all add: distinct_map_set)
  from this [of "[]"] show ?thesis by (simp add: new_Map_def)
qed

lemma mset_object_entries: "mset (object_entries obj) = mset obj"
  by (simp add: object_entries_def)

lemma distinct_object_entries:
  "distinct (map fst obj) \<Longrightarrow> distinct (map fst (object_entries obj))"
proof -
  have "mset (map fst (object_entries obj)) = mset (map fst obj)"
    by (simp only: mset_map mset_object_entries)
  then show "distinct (map fst obj) \<Longrightarrow> distinct (map fst (object_entries obj))"
    using mset_eq_imp_distinct_iff by blast
qed

lemma map_of_mset_eq:
  assumes "distinct (map fst xs)" "mset ys = mset xs"
  shows "map_of ys = map_of xs"
proof -
  have "mset (map fst ys) = mset (map fst xs)" using assms(2) by (simp only: mset_map)
  then have "distinct (map fst ys)" using assms(1) mset_eq_imp_distinct_iff by blast
  moreover have "set ys = set xs" using assms(2) by (rule mset_eq_setD)
  ultimately show ?thesis using assms(1) by (simp add: map_of_inject_set)
qed

text \<open>
  A \<open>Map\<close> turned into an object by \<open>Object.fromEntries\<close> and back by
  \<open>new Map(Object.entries(...))\<close> has the same entries; their order may differ, since
  array-index keys are enumerated first.
\<close>

lemma metadata_round_trip:
  assumes "distinct (map fst m)"
  shows "mset (new_Map (object_entries (object_fromEntries m))) = mset m"
    and "map_of (new_Map (object_entries (object_fromEntries m))) = map_of m"
proof -
  have e: "new_Map (object_entries (object_fromEntries m)) = object_entries m"
    using assms by (simp add: object_fromEntries_distinct new_Map_distinct distinct_object_entries)
  show "mset (new_Map (object_entries (object_fromEntries m))) = mset m"
    by (simp add: e mset_object_entries)
  then show "map_of (new_Map (object_entries (object_fromEntries m))) = map_of m"
    using assms by (rule map_of_mset_eq [rotated])
qed

section \<open>Session store: what every reachable store satisfies\<close>

lemma store_ok_emit: "store_ok (emit st e) = store_ok st"
  by (simp add: store_ok_def emit_def)

lemma store_ok_permissionManager: "store_ok (st\<lparr>permissionManager := pm\<rparr>) = store_ok st"
  by (simp add: store_ok_def)

lemma store_ok_put:
  assumes "store_ok st" "workingDirectory s \<noteq> []" "permissionMode s \<noteq> []"
  shows "store_ok (st\<lparr>sessions := map_set (sessions st) k s\<rparr>)"
  using assms by (auto simp: store_ok_def distinct_map_set dest!: set_map_set)

lemma store_ok_touch:
  assumes "store_ok st" "map_get (sessions st) k = Some s"
  shows "workingDirectory s \<noteq> []" "permissionMode s \<noteq> []"
  using assms by (auto simp: store_ok_def dest!: map_get_member)

lemma store_ok_heap:
  assumes "store_ok st" "distinct (map fst m)"
  shows "store_ok (st\<lparr>heap := (heap st)(r := m)\<rparr>)"
  using assms by (simp add: store_ok_def)

lemma store_ok_new: "store_ok new_SessionManager"
  by (simp add: store_ok_def new_SessionManager_def)

lemma store_ok_destroySession: "store_ok st \<Longrightarrow> store_ok (snd (destroySession st k now))"
  using set_map_delete [of "sessions st" k]
  by (auto simp: destroySession_def store_ok_def emit_def distinct_map_delete split: option.splits)

lemma store_ok_sweep_fold:
  "store_ok st \<Longrightarrow> store_ok (foldl (\<lambda>s k. snd (destroySession s k now)) st ks)"
  by (induction ks arbitrary: st) (simp_all add: store_ok_destroySession)

lemma store_ok_cleanupExpiredSessions:
  "store_ok st \<Longrightarrow> store_ok (snd (cleanupExpiredSessions st now))"
  by (simp add: cleanupExpiredSessions_def Let_def store_ok_emit store_ok_sweep_fold)

lemma str_or_nonempty: "d \<noteq> [] \<Longrightarrow> str_or x d \<noteq> []"
  by (simp add: str_or_def split: option.splits)

lemma store_ok_allocateSession:
  assumes "store_ok st" "cwd \<noteq> []"
  shows "store_ok (snd (allocateSession st config sessionId cwd now))"
proof -
  let ?s = "created_session st (config\<lparr>cfg_id := Some sessionId\<rparr>) sessionId cwd now
              \<lparr>session_id := sessionId\<rparr>"
  have 1: "store_ok (st\<lparr>heap := (heap st)(next_ref st := [])\<rparr>)"
    using assms(1) by (rule store_ok_heap) simp
  have 2: "store_ok (st\<lparr>heap := (heap st)(next_ref st := []), next_ref := Suc (next_ref st)\<rparr>)"
    using 1 by (simp add: store_ok_def)
  have "store_ok (st\<lparr>heap := (heap st)(next_ref st := []), next_ref := Suc (next_ref st),
      sessions := map_set (sessions st) sessionId ?s\<rparr>)"
    using store_ok_put [OF 2, of ?s sessionId] assms(2)
    by (simp add: created_session_def str_or_nonempty)
  then show ?thesis
    by (simp add: allocateSession_def Let_def emit_def created_session_def store_ok_def)
qed

lemma store_ok_createSession:
  assumes "store_ok st" "cwd \<noteq> []"
  shows "store_ok (snd (createSession st config generated cwd now))"
  using assms
  by (simp add: createSession_def Let_def store_ok_cleanupExpiredSessions
      store_ok_allocateSession split: prod.splits)
    (metis snd_conv store_ok_allocateSession store_ok_cleanupExpiredSessions)

lemma store_ok_getSession: "store_ok st \<Longrightarrow> store_ok (snd (getSession st k now))"
  by (auto simp: getSession_def Let_def split: option.splits
      intro!: store_ok_put dest: store_ok_touch)

lemma store_ok_incrementToolCall:
  "store_ok st \<Longrightarrow> store_ok (snd (incrementToolCall st k now))"
  by (auto simp: incrementToolCall_def Let_def split: option.splits
      intro!: store_ok_put dest: store_ok_touch)

lemma store_ok_checkToolPermission:
  "store_ok st \<Longrightarrow> store_ok (snd (checkToolPermission st k tool now))"
  using store_ok_getSession [of st k now]
  by (auto simp: checkToolPermission_def store_ok_permissionManager split: prod.splits option.splits)

lemma store_ok_getSessionMetadata:
  "store_ok st \<Longrightarrow> store_ok (snd (getSessionMetadata st k key now))"
  using store_ok_getSession [of st k now]
  by (auto simp: getSessionMetadata_def split: prod.splits option.splits)

lemma store_ok_exportSession:
  "store_ok st \<Longrightarrow> store_ok (snd (exportSession st k now))"
  using store_ok_getSession [of st k now]
  by (auto simp: exportSession_def split: prod.splits option.splits)

lemma store_ok_setSessionMetadata:
  assumes "store_ok st"
  shows "store_ok (snd (setSessionMetadata st k key v now))"
proof (cases "map_get (sessions st) k")
  case None
  then show ?thesis using assms by (simp add: setSessionMetadata_def)
next
  case (Some s)
  have d: "distinct (map fst (map_set (heap st (metadata s)) key v))"
    using assms by (simp add: store_ok_def distinct_map_set)
  have "store_ok (st\<lparr>heap := (heap st)(metadata s := map_set (heap st (metadata s)) key v)\<rparr>)"
    using assms d by (rule store_ok_heap)
  from store_ok_put [OF this, of "s\<lparr>lastActivity := now\<rparr>" k] store_ok_touch [OF assms Some]
  show ?thesis by (simp add: setSessionMetadata_def Some Let_def)
qed

lemma changed_nonempty: "changed u cur \<Longrightarrow> str_or u [] \<noteq> []"
  by (auto simp: changed_def truthy_str_def str_or_def split: option.splits)

lemma store_ok_updateSession:
  assumes "store_ok st"
  shows "store_ok (snd (updateSession st k updates now))"
proof (cases "map_get (sessions st) k")
  case None
  then show ?thesis using assms by (simp add: updateSession_def)
next
  case (Some s)
  define s4 where "s4 =
    (let s1 = (if changed (cfg_mode updates) (mode s)
               then s\<lparr>mode := str_or (cfg_mode updates) []\<rparr> else s);
         s2 = (if changed (cfg_workingDirectory updates) (workingDirectory s)
               then s1\<lparr>workingDirectory := str_or (cfg_workingDirectory updates) []\<rparr> else s1);
         s3 = (if changed (cfg_permissionMode updates) (permissionMode s)
               then s2\<lparr>permissionMode := str_or (cfg_permissionMode updates) []\<rparr> else s2)
     in s3\<lparr>lastActivity := now\<rparr>)"
  have w: "workingDirectory s4 \<noteq> []" "permissionMode s4 \<noteq> []"
    using store_ok_touch [OF assms Some]
    by (auto simp: s4_def Let_def changed_nonempty)
  have "sessions (snd (updateSession st k updates now)) = map_set (sessions st) k s4"
    "heap (snd (updateSession st k updates now)) = heap st"
    by (simp_all add: updateSession_def Some Let_def s4_def emit_def)
  moreover have "store_ok (st\<lparr>sessions := map_set (sessions st) k s4\<rparr>)"
    using assms w by (rule store_ok_put)
  ultimately show ?thesis by (simp add: store_ok_def)
qed

lemma store_ok_importSession:
  assumes "store_ok st" "cwd \<noteq> []"
  shows "store_ok (snd (importSession st d generated cwd now))"
proof -
  let ?m = "new_Map (object_entries (case d_metadata d of None \<Rightarrow> [] | Some obj \<Rightarrow> obj))"
  let ?s = "\<lparr>session_id = str_or (d_id d) generated,
             mode = str_or (d_mode d) ''default'',
             workingDirectory = str_or (d_workingDirectory d) cwd,
             permissionMode = str_or (d_permissionMode d) ''yolo'',
             createdAt = num_or (d_createdAt d) now,
             lastActivity = num_or (d_lastActivity d) now,
             toolCallCount = num_or (d_toolCallCount d) 0,
             isActive = True,
             metadata = next_ref st\<rparr>"
  have 1: "store_ok (st\<lparr>heap := (heap st)(next_ref st := ?m)\<rparr>)"
    using assms(1) distinct_new_Map by (rule store_ok_heap)
  have "store_ok (st\<lparr>heap := (heap st)(next_ref st := ?m),
      sessions := map_set (sessions st) (str_or (d_id d) generated) ?s\<rparr>)"
    using store_ok_put [OF 1, of ?s "str_or (d_id d) generated"] assms(2)
    by (simp add: str_or_nonempty)
  then show ?thesis
    by (simp add: importSession_def Let_def emit_def store_ok_def)
qed

lemma store_ok_destroyAllSessions:
  "store_ok st \<Longrightarrow> store_ok (snd (destroyAllSessions st now))"
proof -
  have "store_ok (snd acc) \<Longrightarrow>
    store_ok (snd (foldl (\<lambda>acc sessionId.
              case destroySession (snd acc) sessionId now of
                (ok, st1) \<Rightarrow> (if ok then Suc (fst acc) else fst acc, st1)) acc ks))"
    for acc :: "nat \<times> SessionManager" and ks
  proof (induction ks arbitrary: acc)
    case Nil
    then show ?case by simp
  next
    case (Cons k ks)
    have "store_ok (snd (case destroySession (snd acc) k now of
                (ok, st1) \<Rightarrow> (if ok then Suc (fst acc) else fst acc, st1)))"
      using store_ok_destroySession [OF Cons.prems, of k now]
      by (cases "destroySession (snd acc) k now") simp
    from Cons.IH [OF this] show ?case by simp
  qed
  from this [of "(0, st)"] show "store_ok st \<Longrightarrow> store_ok (snd (destroyAllSessions st now))"
    by (simp add: destroyAllSessions_def)
qed

lemma store_ok_client:
  assumes "store_ok st"
  shows "store_ok (client_metadata_set st r key v)"
    and "store_ok (client_metadata_delete st r key)"
    and "store_ok (client_metadata_clear st r)"
  using assms
  by (simp_all add: client_metadata_set_def client_metadata_delete_def client_metadata_clear_def
      store_ok_def distinct_map_set distinct_map_delete)

lemma reachable_store_ok: "reachable st \<Longrightarrow> store_ok st"
proof (induction rule: reachable.induct)
  case reach_new
  show ?case by (rule store_ok_new)
qed (simp_all add: store_ok_createSession store_ok_getSession store_ok_updateSession
    store_ok_destroySession store_ok_incrementToolCall store_ok_checkToolPermission
    store_ok_cleanupExpiredSessions store_ok_setSessionMetadata store_ok_getSessionMetadata
    store_ok_exportSession store_ok_importSession store_ok_destroyAllSessions store_ok_client)

section \<open>Session store: export and import\<close>

lemma str_or_Some: "x \<noteq> [] \<Longrightarrow> str_or (Some x) d = x"
  by (simp add: str_or_def)

lemma num_or_Some_0: "num_or (Some x) 0 = x"
  by (simp add: num_or_def)

lemma reachable_example_meta_store: "reachable example_meta_store"
  unfolding example_meta_store_def example_used_store_def example_store_def
  by (intro reachable.intros) simp

lemma example_meta_store_session:
  "map_get (sessions example_meta_store) ''s1'' =
     Some \<lparr>session_id = ''s1'', mode = ''default'', workingDirectory = ''/home/u'',
           permissionMode = ''yolo'', createdAt = 1000, lastActivity = 2600,
           toolCallCount = 1, isActive = True, metadata = 0\<rparr>"
  "heap example_meta_store 0 = [(''owner'', JStr ''ann''), (''7'', JNum 1)]"
  by (simp_all add: example_meta_store_def setSessionMetadata_def example_used_store_sessions
      map_get_def map_set_def Let_def example_used_store_def incrementToolCall_def
      example_store_eq)

text \<open>
  Claim C6. For a live session of a reachable store, \<open>exportSession\<close> returns a
  snapshot, and importing that snapshot (into any manager, with any generated id,
  working directory and time) stores a session under the returned id whose
  \<open>workingDirectory\<close>, \<open>permissionMode\<close> and \<open>toolCallCount\<close> are those of the original,
  whose metadata map has the same entries as the original's (as a multiset, and so the
  same value under every key), and whose \<open>isActive\<close> is true.
\<close>

theorem export_import_roundtrip:
  assumes "reachable st" and "map_get (sessions st) sessionId = Some s"
  shows "\<exists>d. fst (exportSession st sessionId t1) = Some d \<and>
     (\<forall>st' generated cwd t2.
        \<exists>s'. map_get (sessions (snd (importSession st' d generated cwd t2)))
                (fst (importSession st' d generated cwd t2)) = Some s' \<and>
             workingDirectory s' = workingDirectory s \<and>
             permissionMode s' = permissionMode s \<and>
             toolCallCount s' = toolCallCount s \<and>
             mset (heap (snd (importSession st' d generated cwd t2)) (metadata s')) =
               mset (heap st (metadata s)) \<and>
             (\<forall>key. map_get (heap (snd (importSession st' d generated cwd t2)) (metadata s')) key =
                    map_get (heap st (metadata s)) key) \<and>
             isActive s')"
proof -
  have ok: "store_ok st" using assms(1) by (rule reachable_store_ok)
  have w: "workingDirectory s \<noteq> []" "permissionMode s \<noteq> []"
    using store_ok_touch [OF ok assms(2)] by simp_all
  have dm: "distinct (map fst (heap st (metadata s)))"
    using ok by (simp add: store_ok_def)
  let ?d = "\<lparr>d_id = Some (session_id s), d_mode = Some (mode s),
             d_workingDirectory = Some (workingDirectory s),
             d_permissionMode = Some (permissionMode s),
             d_createdAt = Some (createdAt s), d_lastActivity = Some t1,
             d_toolCallCount = Some (toolCallCount s),
             d_metadata = Some (object_fromEntries (heap st (metadata s)))\<rparr>"
  have ex: "fst (exportSession st sessionId t1) = Some ?d"
    by (simp add: exportSession_def getSession_def assms(2) Let_def)
  have im: "\<exists>s'. map_get (sessions (snd (importSession st' ?d generated cwd t2)))
                (fst (importSession st' ?d generated cwd t2)) = Some s' \<and>
             workingDirectory s' = workingDirectory s \<and>
             permissionMode s' = permissionMode s \<and>
             toolCallCount s' = toolCallCount s \<and>
             mset (heap (snd (importSession st' ?d generated cwd t2)) (metadata s')) =
               mset (heap st (metadata s)) \<and>
             (\<forall>key. map_get (heap (snd (importSession st' ?d generated cwd t2)) (metadata s')) key =
                    map_get (heap st (metadata s)) key) \<and>
             isActive s'" for st' generated cwd t2
    using w metadata_round_trip [OF dm]
    by (simp add: importSession_def Let_def emit_def map_get_set_same str_or_Some num_or_Some_0)
      (simp add: map_get_def)
  from ex im show ?thesis by blast
qed

theorem export_import_roundtrip_witness:
  "reachable example_meta_store \<and>
   map_option toolCallCount (map_get (sessions example_meta_store) ''s1'') = Some 1 \<and>
   (\<exists>d. fst (exportSession example_meta_store ''s1'' 3000) = Some d \<and>
     (\<exists>s'. map_get (sessions (snd (importSession new_SessionManager d ''gen-9'' ''/tmp'' 4000)))
              (fst (importSession new_SessionManager d ''gen-9'' ''/tmp'' 4000)) = Some s' \<and>
           workingDirectory s' = ''/home/u'' \<and> permissionMode s' = ''yolo'' \<and>
           toolCallCount s' = 1 \<and> isActive s' \<and>
           map_get (heap (snd (importSession new_SessionManager d ''gen-9'' ''/tmp'' 4000))
                      (metadata s')) ''owner'' = Some (JStr ''ann'') \<and>
           map_get (heap (snd (importSession new_SessionManager d ''gen-9'' ''/tmp'' 4000))
                      (metadata s')) ''7'' = Some (JNum 1)))"
proof -
  note s = example_meta_store_session
  from export_import_roundtrip [OF reachable_example_meta_store s(1), of 3000]
  obtain d where d: "fst (exportSession example_meta_store ''s1'' 3000) = Some d"
    and r: "\<And>st' generated cwd t2.
        \<exists>s'. map_get (sessions (snd (importSession st' d generated cwd t2)))
                (fst (importSession st' d generated cwd t2)) = Some s' \<and>
             workingDirectory s' = ''/home/u'' \<and>
             permissionMode s' = ''yolo'' \<and>
             toolCallCount s' = 1 \<and>
             mset (heap (snd (importSession st' d generated cwd t2)) (metadata s')) =
               mset (heap example_meta_store 0) \<and>
             (\<forall>key. map_get (heap (snd (importSession st' d generated cwd t2)) (metadata s')) key =
                    map_get (heap example_meta_store 0) key) \<and>
             isActive s'"
    by auto
  from r [of new_SessionManager "''gen-9''" "''/tmp''" 4000]
  have "\<exists>s'. map_get (sessions (snd (importSession new_SessionManager d ''gen-9'' ''/tmp'' 4000)))
              (fst (importSession new_SessionManager d ''gen-9'' ''/tmp'' 4000)) = Some s' \<and>
           workingDirectory s' = ''/home/u'' \<and> permissionMode s' = ''yolo'' \<and>
           toolCallCount s' = 1 \<and> isActive s' \<and>
           map_get (heap (snd (importSession new_SessionManager d ''gen-9'' ''/tmp'' 4000))
                      (metadata s')) ''owner'' = Some (JStr ''ann'') \<and>
           map_get (heap (snd (importSession new_SessionManager d ''gen-9'' ''/tmp'' 4000))
                      (metadata s')) ''7'' = Some (JNum 1)"
    by (auto simp: s(2) map_get_def)
  with d reachable_example_meta_store s(1) show ?thesis by auto
qed

section \<open>Session store: the copy returned by getSession\<close>

text \<open>
  For an unknown id \<open>getSession\<close> returns nothing and leaves the state as it is; for a
  live id the only change to the store is the session's \<open>lastActivity\<close>, and the copy
  returned has the stored session's fields, the metadata reference among them.
\<close>

lemma getSession_effect:
  "getSession st sessionId now =
     (case map_get (sessions st) sessionId of
        None \<Rightarrow> (None, st)
      | Some s \<Rightarrow> (Some (s\<lparr>lastActivity := now\<rparr>),
                   st\<lparr>sessions := map_set (sessions st) sessionId (s\<lparr>lastActivity := now\<rparr>)\<rparr>))"
  by (simp add: getSession_def Let_def split: option.splits)

text \<open>
  Claim C7 fails on the metadata map. The copy \<open>getSession\<close> returns for \<open>s1\<close> shares
  the session's metadata \<open>Map\<close>: before the client touches the copy the store has no
  metadata \<open>k\<close> for \<open>s1\<close>; after the client calls \<open>copy.metadata.set('k', 'v')\<close>,
  \<open>getSessionMetadata('s1', 'k')\<close> returns \<open>v\<close>.
\<close>

theorem getSession_copy_shares_metadata:
  "(case getSession example_store ''s1'' 2000 of
      (None, st1) \<Rightarrow> False
    | (Some copy, st1) \<Rightarrow>
        fst (getSessionMetadata st1 ''s1'' ''k'' 3000) = None \<and>
        fst (getSessionMetadata (client_metadata_set st1 (metadata copy) ''k'' (JStr ''v''))
               ''s1'' ''k'' 3000) = Some (JStr ''v''))"
  by (simp add: example_store_eq getSession_def getSessionMetadata_def client_metadata_set_def
      map_get_def map_set_def Let_def)

section \<open>Tool mapping indices\<close>

lemma new_ACPToolConverter_default:
  "new_ACPToolConverter DEFAULT_TOOL_MAPPINGS =
     \<lparr>mappings = map (\<lambda>m. (fromACP m, m)) DEFAULT_TOOL_MAPPINGS,
      reverseMappings = map (\<lambda>m. (toKode m, m)) DEFAULT_TOOL_MAPPINGS\<rparr>"
  by (simp add: new_ACPToolConverter_def initializeMappings_def DEFAULT_TOOL_MAPPINGS_def
      map_set_def)

lemma example_converter_eq:
  "example_converter =
     \<lparr>mappings = map (\<lambda>m. (fromACP m, m)) DEFAULT_TOOL_MAPPINGS @ [(''fetch'', example_fetch_new)],
      reverseMappings = map (\<lambda>m. (toKode m, m)) DEFAULT_TOOL_MAPPINGS @
        [(''Fetch'', example_fetch_old), (''Download'', example_fetch_new)]\<rparr>"
  unfolding example_converter_def new_ACPToolConverter_default
  by (simp add: addMapping_def map_set_def DEFAULT_TOOL_MAPPINGS_def example_fetch_old_def
      example_fetch_new_def)

text \<open>
  Claim C8 fails on re-registration. The indices built by the constructor agree, and
  still agree after \<open>fetch\<close> is registered for \<open>Fetch\<close>. After \<open>fetch\<close> is registered
  again for \<open>Download\<close> they do not: the forward entry of \<open>fetch\<close> leads to \<open>Download\<close>
  while the inverse index still holds the old mapping under \<open>Fetch\<close>, and
  \<open>convertFromKode\<close> still applies that old mapping's \<open>reverseTransform\<close> to a result
  whose id contains \<open>Fetch\<close>.
\<close>

theorem addMapping_leaves_stale_inverse:
  "indices_consistent (new_ACPToolConverter DEFAULT_TOOL_MAPPINGS) \<and>
   indices_consistent (addMapping (new_ACPToolConverter DEFAULT_TOOL_MAPPINGS) example_fetch_old) \<and>
   \<not> indices_consistent example_converter \<and>
   map_option toKode (map_get (mappings example_converter) ''fetch'') = Some ''Download'' \<and>
   map_option fromACP (map_get (reverseMappings example_converter) ''Fetch'') = Some ''fetch'' \<and>
   convertFromKode example_converter
     \<lparr>content = JNull, tool_use_id = ''Fetch_1'', is_error = False\<rparr> = JStr ''old rule''"
proof -
  have 1: "indices_consistent (new_ACPToolConverter DEFAULT_TOOL_MAPPINGS)"
    unfolding new_ACPToolConverter_default
    by (simp add: indices_consistent_def DEFAULT_TOOL_MAPPINGS_def map_get_def)
  have 2: "indices_consistent
      (addMapping (new_ACPToolConverter DEFAULT_TOOL_MAPPINGS) example_fetch_old)"
    unfolding new_ACPToolConverter_default
    by (simp add: indices_consistent_def DEFAULT_TOOL_MAPPINGS_def map_get_def addMapping_def
        map_set_def example_fetch_old_def)
  have 3: "map_option toKode (map_get (mappings example_converter) ''fetch'') = Some ''Download''"
    by (simp add: example_converter_eq DEFAULT_TOOL_MAPPINGS_def map_get_def example_fetch_new_def)
  have 4: "map_option fromACP (map_get (reverseMappings example_converter) ''Fetch'') =
      Some ''fetch''"
    by (simp add: example_converter_eq DEFAULT_TOOL_MAPPINGS_def map_get_def example_fetch_old_def)
  have 5: "\<not> indices_consistent example_converter"
    by (simp add: example_converter_eq indices_consistent_def DEFAULT_TOOL_MAPPINGS_def
        map_get_def example_fetch_old_def example_fetch_new_def)
  have 6: "convertFromKode example_converter
     \<lparr>content = JNull, tool_use_id = ''Fetch_1'', is_error = False\<rparr> = JStr ''old rule''"
    by (simp add: example_converter_eq convertFromKode_def DEFAULT_TOOL_MAPPINGS_def
        map_values_def example_fetch_old_def example_fetch_new_def)
  from 1 2 3 4 5 6 show ?thesis by simp
qed

section \<open>Parallel model requests\<close>

text \<open>A batch of \<open>N\<close> requests has \<open>N\<close> results, failed requests included.\<close>

lemma executeInParallel_length:
  "length (executeInParallel mm call requests) = length requests"
  by (simp add: executeInParallel_def)

text \<open>
  Each entry is the result of its own request alone. A request whose profile does not
  resolve yields an entry with an error, and an entry without an error carries the name
  of the model the request resolved to.
\<close>

lemma executeInParallel_nth:
  "i < length requests \<Longrightarrow>
   executeInParallel mm call requests ! i = executeRequest mm call (requests ! i)"
  by (simp add: executeInParallel_def)

lemma executeRequest_unresolved:
  assumes "map_get (modelProfiles mm)
             (str_or (Some (str_or (req_modelName request)
                (case req_purpose request of
                   Some p \<Rightarrow> pointer (modelPointers mm) p
                 | None \<Rightarrow> currentModel mm)))
              (currentModel mm)) = None"
  shows "res_error (executeRequest mm call request) \<noteq> None"
    and "res_response (executeRequest mm call request) = []"
  using assms by (simp_all add: executeRequest_def executeWithModel_def Let_def)

lemma executeRequest_success_model:
  assumes "res_error (executeRequest mm call request) = None"
  shows "res_model (executeRequest mm call request) =
           str_or (req_modelName request)
             (case req_purpose request of
                Some p \<Rightarrow> pointer (modelPointers mm) p
              | None \<Rightarrow> currentModel mm)"
  using assms by (simp add: executeRequest_def Let_def split: sum.splits)

lemma example_models_eq:
  "example_models =
     \<lparr>mm_config = example_config_acp,
      modelProfiles = map (\<lambda>m. (profile_name m, m))
        [default_profile ''claude-sonnet'' ''anthropic'' ''claude-3-sonnet-20240229'' 200000,
         default_profile ''claude-haiku'' ''anthropic'' ''claude-3-haiku-20240307'' 200000,
         default_profile ''gpt-4'' ''openai'' ''gpt-4'' 128000,
         default_profile ''gpt-4o'' ''openai'' ''gpt-4o'' 128000,
         default_profile ''gemini-pro'' ''google'' ''gemini-1.5-pro'' 2097152],
      modelPointers = \<lparr>main = ''claude-sonnet'', task = ''qwen-coder'',
                        reasoning = ''gpt-4'', quick = ''claude-haiku''\<rparr>,
      currentModel = ''claude-sonnet''\<rparr>"
  by (simp add: example_models_def removeModelProfile_def new_MultiModelManager_def
      initializeDefaultModels_def defaultModels_def map_set_def map_delete_def
      default_profile_def)

text \<open>
  Claim C9 fails on a failed request that chose its model by purpose. The \<open>task\<close> pointer
  names \<open>qwen-coder\<close>, which has no profile; the second request asks for the \<open>task\<close>
  model and fails, and its entry carries the model name \<open>claude-sonnet\<close> (the current
  model), the same name as the entry of the first request, whatever the backend answers.
\<close>

theorem executeInParallel_misattributes_failed_purpose:
  "pointer (modelPointers example_models) Task = ''qwen-coder'' \<and>
   map res_model (executeInParallel example_models call example_requests) =
     [''claude-sonnet'', ''claude-sonnet''] \<and>
   map res_error (tl (executeInParallel example_models call example_requests)) =
     [Some ''Model profile not found: qwen-coder'']"
  by (cases "call (default_profile ''claude-sonnet'' ''anthropic'' ''claude-3-sonnet-20240229''
        200000) ''a'' None")
    (simp_all add: example_models_eq example_requests_def executeInParallel_def
      executeRequest_def executeWithModel_def str_or_def map_get_def Let_def default_profile_def)

section \<open>The router's tool calls\<close>

text \<open>
  Claim C1, as amended. For a \<open>tool_call\<close> message with a session id and a tool call
  whose session exists, the router calls the execution collaborator once, directly, with
  the tool's name and input as given and the call's id (a generated one when it has
  none); no permission request and no lookup of the tool mapping comes before it. The
  response is \<open>tool_call_response\<close> with the collaborator's result, or an error response
  when the collaborator fails.
\<close>

theorem handleToolCall_executes_directly:
  assumes "msg_sessionId message = Some sessionId" and "sessionId \<noteq> []"
    and "msg_toolCall message = Some toolCall"
    and "map_has (agent_sessions ag) sessionId"
  shows "snd (handleToolCall ag executeTool generated message) =
           [ToolExecuted \<lparr>call_name = call_name toolCall, call_input = call_input toolCall,
                          call_id = Some (str_or (call_id toolCall) generated)\<rparr>] \<and>
         fst (handleToolCall ag executeTool generated message) =
           (case executeTool \<lparr>call_name = call_name toolCall, call_input = call_input toolCall,
                               call_id = Some (str_or (call_id toolCall) generated)\<rparr> of
              Inr result \<Rightarrow>
                ToolCallResponse sessionId (str_or (call_id toolCall) generated) result
            | Inl msg \<Rightarrow> ErrorResponse (''Tool call failed: '' @ msg))"
  using assms
  by (auto simp: handleToolCall_def map_has_def map_get_def Let_def split: option.splits sum.splits)

lemma example_agent_sessions:
  "agent_sessions example_agent =
     [(''S'', \<lparr>ks_id = ''S'', ks_workingDirectory = ''/home/u'', cancelled = False,
               ks_permissionMode = ''yolo''\<rparr>)]"
  by (simp add: example_agent_def handleNewSession_def new_KodeAcpAgentSimple_def Let_def
      map_set_def str_or_def example_config_acp_def)

theorem handleToolCall_executes_directly_witness:
  "msg_sessionId (example_tool_call ''read_file'') = Some ''S'' \<and>
   map_has (agent_sessions example_agent) ''S'' \<and>
   snd (handleToolCall example_agent example_executeTool ''gen'' (example_tool_call ''read_file'')) =
     [ToolExecuted \<lparr>call_name = ''read_file'', call_input = JObj [(''path'', JStr ''/x'')],
                    call_id = Some ''t1''\<rparr>] \<and>
   fst (handleToolCall example_agent example_executeTool ''gen'' (example_tool_call ''read_file'')) =
     ToolCallResponse ''S'' ''t1''
       \<lparr>content = JStr ''done'', tool_use_id = ''t1'', is_error = False\<rparr>"
proof -
  have h1: "msg_sessionId (example_tool_call ''read_file'') = Some ''S''"
    by (simp add: example_tool_call_def)
  have h2: "''S'' \<noteq> []" by simp
  have h3: "msg_toolCall (example_tool_call ''read_file'') =
      Some \<lparr>call_name = ''read_file'', call_input = JObj [(''path'', JStr ''/x'')],
            call_id = Some ''t1''\<rparr>"
    by (simp add: example_tool_call_def)
  have h4: "map_has (agent_sessions example_agent) ''S''"
    by (simp add: example_agent_sessions map_has_def)
  from handleToolCall_executes_directly [OF h1 h2 h3 h4, of example_executeTool "''gen''"] h1 h4
  show ?thesis by (simp add: str_or_def example_executeTool_def)
qed

text \<open>
  The claim fails: for the existing session \<open>S\<close> the router executes
  \<open>nonexistent_tool\<close>, which has no registered mapping, and neither that call nor the
  call of \<open>read_file\<close> is preceded by a permission request.
\<close>

theorem handleToolCall_not_gated_counterexample:
  "map_has (agent_sessions example_agent) ''S'' \<and>
   map_get (mappings (new_ACPToolConverter DEFAULT_TOOL_MAPPINGS)) ''nonexistent_tool'' = None \<and>
   snd (handleToolCall example_agent example_executeTool ''gen''
          (example_tool_call ''nonexistent_tool'')) =
     [ToolExecuted \<lparr>call_name = ''nonexistent_tool'',
                    call_input = JObj [(''path'', JStr ''/x'')], call_id = Some ''t1''\<rparr>] \<and>
   \<not> permission_gated
       (snd (handleToolCall example_agent example_executeTool ''gen''
               (example_tool_call ''nonexistent_tool''))) \<and>
   \<not> permission_gated
       (snd (handleToolCall example_agent example_executeTool ''gen''
               (example_tool_call ''read_file'')))"
proof -
  have t: "snd (handleToolCall example_agent example_executeTool ''gen'' (example_tool_call n)) =
     [ToolExecuted \<lparr>call_name = n, call_input = JObj [(''path'', JStr ''/x'')],
                    call_id = Some ''t1''\<rparr>]" for n
    by (simp add: handleToolCall_def example_agent_sessions example_tool_call_def map_get_def
        Let_def str_or_def example_executeTool_def)
  have m: "map_get (mappings (new_ACPToolConverter DEFAULT_TOOL_MAPPINGS)) ''nonexistent_tool'' =
      None"
    unfolding new_ACPToolConverter_default
    by (simp add: DEFAULT_TOOL_MAPPINGS_def map_get_def)
  have s: "map_has (agent_sessions example_agent) ''S''"
    by (simp add: example_agent_sessions map_has_def)
  show ?thesis
    by (simp add: t m s permission_gated_def)
qed

end
